theory Spec2Isabelle
  imports Complex_Main "HOL-Library.AList"
begin

section \<open>Documents and the collection operations the handlers call\<close>

text \<open>
  The server (\<^verbatim>\<open>src/index.js\<close>) keeps its data in MongoDB collections and answers HTTP
  requests. A stored document is an ordered list of fields. Field values are the values a
  JSON request body can carry or the handlers themselves produce: null, booleans, numbers
  (as rationals: only whether a number is zero and whether two numbers are equal is ever
  inspected), strings, ObjectIds (by their 24 hex digits), arrays and embedded documents.
  A JavaScript \<^verbatim>\<open>undefined\<close> is the absence of a value, \<open>None\<close>.
\<close>

datatype jval =
    JNull
  | JBool bool
  | JNum rat
  | JStr string
  | JOid string
  | JArr "jval list"
  | JObj "(string \<times> jval) list"

type_synonym doc = "(string \<times> jval) list"

definition field :: "doc \<Rightarrow> string \<Rightarrow> jval option" where
  "field d k = map_of d k"

text \<open>JavaScript truthiness, as used by \<^verbatim>\<open>!x\<close> and \<^verbatim>\<open>a || b\<close>.\<close>

fun truthy :: "jval option \<Rightarrow> bool" where
  "truthy None = False"
| "truthy (Some JNull) = False"
| "truthy (Some (JBool b)) = b"
| "truthy (Some (JNum r)) = (r \<noteq> 0)"
| "truthy (Some (JStr s)) = (s \<noteq> [])"
| "truthy (Some (JOid h)) = True"
| "truthy (Some (JArr xs)) = True"
| "truthy (Some (JObj kvs)) = True"

definition js_or :: "jval option \<Rightarrow> jval option \<Rightarrow> jval option" where
  "js_or a b = (if truthy a then a else b)"

text \<open>
  The driver serialises an \<^verbatim>\<open>undefined\<close> property of a filter or of an inserted document
  as null (its \<^verbatim>\<open>ignoreUndefined\<close> option is off unless asked for, and the server never
  asks).
\<close>

fun bson :: "jval option \<Rightarrow> jval" where
  "bson None = JNull"
| "bson (Some v) = v"

text \<open>
  \<^verbatim>\<open>JSON.stringify\<close> of an object drops the properties that are \<^verbatim>\<open>undefined\<close> and writes
  an ObjectId as its hex string, also inside arrays and embedded documents.
\<close>

fun toJSON :: "jval \<Rightarrow> jval" where
  "toJSON (JOid h) = JStr h"
| "toJSON (JArr xs) = JArr (map toJSON xs)"
| "toJSON (JObj kvs) = JObj (map (map_prod id toJSON) kvs)"
| "toJSON v = v"

fun json_object :: "(string \<times> jval option) list \<Rightarrow> doc" where
  "json_object [] = []"
| "json_object ((k, None) # kvs) = json_object kvs"
| "json_object ((k, Some v) # kvs) = (k, toJSON v) # json_object kvs"

text \<open>
  An equality condition \<^verbatim>\<open>{k: q}\<close> holds for a stored value that equals \<open>q\<close>, and
  for a stored array one of whose elements equals \<open>q\<close>.
\<close>

definition value_matches :: "jval \<Rightarrow> jval \<Rightarrow> bool" where
  "value_matches v q = (v = q \<or> (case v of JArr xs \<Rightarrow> q \<in> set xs | _ \<Rightarrow> False))"

text \<open>
  An equality filter \<^verbatim>\<open>{k1: q1, k2: q2}\<close>: every condition must hold; a condition on null
  holds also for a document that has no such field.
\<close>

definition matches :: "doc \<Rightarrow> doc \<Rightarrow> bool" where
  "matches flt d =
     list_all (\<lambda>(k, q). case field d k of None \<Rightarrow> q = JNull | Some v \<Rightarrow> value_matches v q)
       flt"

text \<open>\<^verbatim>\<open>{$set: {k1: v1, k2: v2}}\<close>: a field that exists is overwritten in place, a new one
  is appended.\<close>

fun set_fields :: "doc \<Rightarrow> doc \<Rightarrow> doc" where
  "set_fields [] d = d"
| "set_fields ((k, v) # kvs) d = set_fields kvs (AList.update k v d)"

text \<open>
  \<^verbatim>\<open>collection.updateOne(filter, {$set: upd})\<close> updates the first document that matches
  the filter. The result is the new collection and \<^verbatim>\<open>modifiedCount\<close>, which counts the
  document only if the update changed it.
\<close>

fun updateOne :: "doc \<Rightarrow> doc \<Rightarrow> doc list \<Rightarrow> doc list \<times> nat" where
  "updateOne flt upd [] = ([], 0)"
| "updateOne flt upd (d # ds) =
     (if matches flt d
      then (set_fields upd d # ds, if set_fields upd d = d then 0 else 1)
      else (case updateOne flt upd ds of (ds', n) \<Rightarrow> (d # ds', n)))"

definition findOne :: "doc \<Rightarrow> doc list \<Rightarrow> doc option" where
  "findOne flt ds = find (matches flt) ds"

text \<open>\<^verbatim>\<open>collection.insertOne(d)\<close> with the fresh id the driver generates for the document.\<close>

definition insertOne :: "string \<Rightarrow> doc \<Rightarrow> doc list \<Rightarrow> doc list" where
  "insertOne newId d ds = ds @ [(''_id'', JOid newId) # d]"

text \<open>
  \<^verbatim>\<open>new ObjectId(str)\<close> accepts a string of 24 hex digits and throws on any other string;
  \<open>None\<close> is the throw. Two strings that differ in the case of a digit give the same id.
\<close>

definition is_hex :: "char \<Rightarrow> bool" where
  "is_hex c = (c \<in> set ''0123456789abcdefABCDEF'')"

definition hex_lower :: "char \<Rightarrow> char" where
  "hex_lower c =
     (if c = CHR ''A'' then CHR ''a'' else if c = CHR ''B'' then CHR ''b''
      else if c = CHR ''C'' then CHR ''c'' else if c = CHR ''D'' then CHR ''d''
      else if c = CHR ''E'' then CHR ''e'' else if c = CHR ''F'' then CHR ''f'' else c)"

definition ObjectId :: "string \<Rightarrow> jval option" where
  "ObjectId str =
     (if length str = 24 \<and> list_all is_hex str then Some (JOid (map hex_lower str)) else None)"

section \<open>Requests, responses and the server state\<close>

text \<open>
  A response is a status with a JSON body (\<^verbatim>\<open>res.status(n).json(..)\<close>, status 200 for a
  plain \<^verbatim>\<open>res.json(..)\<close>), a status with a text body (\<^verbatim>\<open>res.status(n).send(..)\<close>), the
  body of a successful login (\<^verbatim>\<open>{success: true, user: {..}}\<close>), the error page with
  which the framework answers when a middleware fails, or none at all: the webhook
  handler has no \<^verbatim>\<open>try\<close> around its store calls, so an exception there rejects the
  handler's promise before any response is written.
\<close>

datatype response =
    Json nat doc
  | Send nat string
  | LoginOk doc
  | Failed nat
  | Rejected

text \<open>
  The cookie \<^verbatim>\<open>token\<close> as \<^verbatim>\<open>verifyToken\<close> sees it: missing, refused by \<^verbatim>\<open>jwt.verify\<close>, or
  verified, with the decoded payload that becomes \<^verbatim>\<open>req.user\<close>.
\<close>

datatype credential = NoToken | BadToken | Token doc

record request =
  cred :: credential
  param_id :: string
  body :: doc

text \<open>What the handler of \<^verbatim>\<open>POST /payments/create-payment\<close> sends to the gateway:
  the currency, the operand \<^verbatim>\<open>amount\<close> of the product \<^verbatim>\<open>amount * 100\<close>, and the order id
  put in the metadata.\<close>

record checkout_params =
  cp_currency :: "jval option"
  cp_amount :: "jval option"
  cp_orderId :: "jval option"

record session =
  sid :: string
  url :: string

record state =
  users :: "doc list"
  orders :: "doc list"
  payments :: "doc list"
  checkout_requests :: "checkout_params list"

text \<open>The event \<^verbatim>\<open>stripe.webhooks.constructEvent\<close> returns: its type, the id of the session
  in \<^verbatim>\<open>event.data.object\<close> and \<^verbatim>\<open>session.metadata?.orderId\<close> (metadata values are
  strings).\<close>

record event =
  etype :: string
  session_id :: string
  metadata_orderId :: "string option"

section \<open>Middleware\<close>

definition verifyToken :: "credential \<Rightarrow> response + doc" where
  "verifyToken c =
     (case c of
        NoToken \<Rightarrow> Inl (Json 401 [(''message'', JStr ''Unauthorized'')])
      | BadToken \<Rightarrow> Inl (Json 403 [(''message'', JStr ''Invalid token'')])
      | Token decoded \<Rightarrow> Inr decoded)"

definition verifyRole :: "string \<Rightarrow> doc \<Rightarrow> response option" where
  "verifyRole role user =
     (if field user ''role'' \<noteq> Some (JStr role)
      then Some (Json 403 [(''message'', JStr ''Forbidden: Insufficient role'')])
      else None)"

section \<open>Login\<close>

text \<open>
  \<^verbatim>\<open>jwt.sign(payload, secret, {expiresIn: "1d"})\<close>: the token is modelled by the payload
  that \<^verbatim>\<open>jwt.verify\<close> decodes from it, which is the JSON form of the payload with the
  issue time and the expiry added.
\<close>

definition jwt_sign :: "(string \<times> jval option) list \<Rightarrow> rat \<Rightarrow> doc" where
  "jwt_sign payload iat =
     json_object payload @ [(''iat'', JNum iat), (''exp'', JNum (iat + 86400))]"

text \<open>\<^verbatim>\<open>POST /auth/login\<close>: the response and the token set as cookie, if any.\<close>

definition auth_login :: "doc \<Rightarrow> rat \<Rightarrow> state \<Rightarrow> response \<times> doc option" where
  "auth_login bdy iat s =
     (case findOne [(''email'', bson (field bdy ''email''))] (users s) of
        None \<Rightarrow>
          (Json 404 [(''success'', JBool False), (''message'', JStr ''User not found'')], None)
      | Some user \<Rightarrow>
          (LoginOk (json_object
             [(''name'', field user ''name''),
              (''email'', field user ''email''),
              (''role'', field user ''role''),
              (''status'', field user ''status''),
              (''avatar'', js_or (field user ''avatar'') (Some JNull)),
              (''address'', js_or (field user ''address'') (Some JNull))]),
           Some (jwt_sign
             [(''email'', field user ''email''),
              (''role'', field user ''role''),
              (''id'', field user ''_id'')] iat)))"

section \<open>Orders\<close>

text \<open>\<^verbatim>\<open>POST /orders\<close>.\<close>

definition orders_post :: "request \<Rightarrow> string \<Rightarrow> string \<Rightarrow> state \<Rightarrow> response \<times> state" where
  "orders_post req now newId s =
     (case verifyToken (cred req) of
        Inl r \<Rightarrow> (r, s)
      | Inr user \<Rightarrow>
         (case verifyRole ''user'' user of
            Some r \<Rightarrow> (r, s)
          | None \<Rightarrow>
             (let mealId = field (body req) ''mealId'';
                  mealName = field (body req) ''mealName'';
                  foodName = field (body req) ''foodName'';
                  chefId = field (body req) ''chefId'';
                  chefName = field (body req) ''chefName'';
                  price = field (body req) ''price'';
                  finalMealName = js_or mealName foodName
              in if \<not> truthy mealId \<or> \<not> truthy finalMealName \<or> \<not> truthy chefId
                    \<or> \<not> truthy chefName \<or> \<not> truthy price
                 then (Json 400 [(''message'', JStr ''Missing required fields'')], s)
                 else
                   (let order =
                      [(''mealId'', bson mealId),
                       (''mealName'', bson finalMealName),
                       (''chefId'', bson chefId),
                       (''chefName'', bson chefName),
                       (''price'', bson price),
                       (''userEmail'', bson (field user ''email'')),
                       (''orderStatus'', JStr ''pending''),
                       (''paymentStatus'', JStr ''Pending''),
                       (''orderTime'', JStr now)]
                    in (Json 200 [(''success'', JBool True), (''insertedId'', JStr newId)],
                        s\<lparr>orders := insertOne newId order (orders s)\<rparr>)))))"

text \<open>The body \<^verbatim>\<open>{success: true, modifiedCount: n}\<close> of the three update handlers.\<close>

definition modified_response :: "nat \<Rightarrow> response" where
  "modified_response n = Json 200 [(''success'', JBool True), (''modifiedCount'', JNum (of_nat n))]"

text \<open>\<^verbatim>\<open>PUT /orders/:id/cancel\<close>.\<close>

definition orders_cancel :: "request \<Rightarrow> string \<Rightarrow> state \<Rightarrow> response \<times> state" where
  "orders_cancel req now s =
     (case verifyToken (cred req) of
        Inl r \<Rightarrow> (r, s)
      | Inr user \<Rightarrow>
         (case verifyRole ''user'' user of
            Some r \<Rightarrow> (r, s)
          | None \<Rightarrow>
             (case ObjectId (param_id req) of
                None \<Rightarrow> (Json 500 [(''message'', JStr ''Failed to cancel order'')], s)
              | Some oid \<Rightarrow>
                 (case updateOne
                         [(''_id'', oid), (''userEmail'', bson (field user ''email''))]
                         [(''orderStatus'', JStr ''cancelled''), (''cancelledAt'', JStr now)]
                         (orders s) of
                    (os, n) \<Rightarrow> (modified_response n, s\<lparr>orders := os\<rparr>)))))"

text \<open>\<^verbatim>\<open>PUT /orders/:id/accept\<close>.\<close>

definition orders_accept :: "request \<Rightarrow> string \<Rightarrow> state \<Rightarrow> response \<times> state" where
  "orders_accept req now s =
     (case verifyToken (cred req) of
        Inl r \<Rightarrow> (r, s)
      | Inr user \<Rightarrow>
         (case verifyRole ''chef'' user of
            Some r \<Rightarrow> (r, s)
          | None \<Rightarrow>
             (case ObjectId (param_id req) of
                None \<Rightarrow> (Json 500 [(''message'', JStr ''Failed to accept order'')], s)
              | Some oid \<Rightarrow>
                 (case updateOne
                         [(''_id'', oid), (''chefId'', bson (field user ''chefId''))]
                         [(''orderStatus'', JStr ''accepted''), (''acceptedAt'', JStr now)]
                         (orders s) of
                    (os, n) \<Rightarrow> (modified_response n, s\<lparr>orders := os\<rparr>)))))"

text \<open>\<^verbatim>\<open>PUT /orders/:id/reject\<close>.\<close>

definition orders_reject :: "request \<Rightarrow> string \<Rightarrow> state \<Rightarrow> response \<times> state" where
  "orders_reject req now s =
     (case verifyToken (cred req) of
        Inl r \<Rightarrow> (r, s)
      | Inr user \<Rightarrow>
         (case verifyRole ''chef'' user of
            Some r \<Rightarrow> (r, s)
          | None \<Rightarrow>
             (case ObjectId (param_id req) of
                None \<Rightarrow> (Json 500 [(''message'', JStr ''Failed to reject order'')], s)
              | Some oid \<Rightarrow>
                 (case updateOne
                         [(''_id'', oid), (''chefId'', bson (field user ''chefId''))]
                         [(''orderStatus'', JStr ''rejected''), (''rejectedAt'', JStr now)]
                         (orders s) of
                    (os, n) \<Rightarrow> (modified_response n, s\<lparr>orders := os\<rparr>)))))"

section \<open>Payments\<close>

text \<open>
  \<^verbatim>\<open>POST /payments/create-payment\<close>. The outcome of the call
  \<^verbatim>\<open>stripe.checkout.sessions.create\<close> is an input: the session the gateway returns, or
  \<open>Inl\<close> when the call throws. The request sent is logged in the state.
\<close>

definition payments_create ::
  "request \<Rightarrow> string + session \<Rightarrow> string \<Rightarrow> string \<Rightarrow> state \<Rightarrow> response \<times> state" where
  "payments_create req gateway now newId s =
     (case verifyToken (cred req) of
        Inl r \<Rightarrow> (r, s)
      | Inr user \<Rightarrow>
         (let amount = field (body req) ''amount'';
              currency = field (body req) ''currency'';
              orderId = field (body req) ''orderId'';
              s1 = s\<lparr>checkout_requests := checkout_requests s @
                     [\<lparr>cp_currency = js_or currency (Some (JStr ''usd'')),
                       cp_amount = amount, cp_orderId = orderId\<rparr>]\<rparr>
          in case gateway of
               Inl err \<Rightarrow> (Json 500 [(''message'', JStr ''Payment creation failed'')], s1)
             | Inr session \<Rightarrow>
                (let paymentRecord =
                   [(''orderId'', bson orderId),
                    (''email'', bson (field user ''email'')),
                    (''amount'', bson amount),
                    (''currency'', bson (js_or currency (Some (JStr ''usd'')))),
                    (''status'', JStr ''pending''),
                    (''sessionId'', JStr (sid session)),
                    (''createdAt'', JStr now)]
                 in (Json 200 [(''success'', JBool True), (''id'', JStr (sid session)),
                               (''url'', JStr (url session))],
                     s1\<lparr>payments := insertOne newId paymentRecord (payments s1)\<rparr>))))"

text \<open>
  The handler function of \<^verbatim>\<open>POST /payments/webhook\<close>. The outcome of its call of
  \<^verbatim>\<open>stripe.webhooks.constructEvent\<close> on the request body, the signature header and the
  shared secret is an input: the verified event, or \<open>Inl\<close> with the message of the
  error it throws when the signature does not verify. Which of the two a request gets is
  settled below, by the middleware and the library.
\<close>

definition received :: response where
  "received = Json 200 [(''received'', JBool True)]"

definition payments_webhook :: "string + event \<Rightarrow> string \<Rightarrow> state \<Rightarrow> response \<times> state" where
  "payments_webhook constructEvent now s =
     (case constructEvent of
        Inl msg \<Rightarrow> (Send 400 (''Webhook Error: '' @ msg), s)
      | Inr ev \<Rightarrow>
         (if etype ev = ''checkout.session.completed''
          then
            (let s1 = s\<lparr>payments := fst (updateOne
                         [(''sessionId'', JStr (session_id ev))]
                         [(''status'', JStr ''paid''), (''paidAt'', JStr now)]
                         (payments s))\<rparr>
             in case metadata_orderId ev of
                  None \<Rightarrow> (received, s1)
                | Some orderId \<Rightarrow>
                   (if truthy (Some (JStr orderId))
                    then
                      (case ObjectId orderId of
                         None \<Rightarrow> (Rejected, s1)
                       | Some oid \<Rightarrow>
                          (received,
                           s1\<lparr>orders := fst (updateOne
                                [(''_id'', oid)]
                                [(''paymentStatus'', JStr ''paid''),
                                 (''orderStatus'', JStr ''accepted'')]
                                (orders s1))\<rparr>))
                    else (received, s1)))
          else (received, s)))"

text \<open>
  The handler above is reached through two body parsers. \<^verbatim>\<open>app.use(express.json())\<close>
  (line 21) runs first, for every route; \<^verbatim>\<open>express.raw({type: "application/json"})\<close> is
  the route's own middleware (line 910). Both read the body of a request only if it has one
  and its \<^verbatim>\<open>Content-Type\<close> is \<^verbatim>\<open>application/json\<close>, and a parser skips a request
  whose body another parser has read already. So \<^verbatim>\<open>req.body\<close> is either the raw bytes,
  when \<^verbatim>\<open>express.raw\<close> has read them, or not raw bytes at all: the object parsed from
  the JSON, or what a request that no parser has read is left with (the empty object or
  \<^verbatim>\<open>undefined\<close>, depending on the version of the framework).
\<close>

datatype payload = Buffer string | NotRaw

text \<open>
  A webhook request: whether it has a body of type \<^verbatim>\<open>application/json\<close>, the status with
  which \<^verbatim>\<open>express.json()\<close> refuses that body if it cannot take it (400 for malformed
  JSON, 413 for a body over the size limit, 415 for an encoding it does not know), the raw
  bytes and the \<^verbatim>\<open>stripe-signature\<close> header.
\<close>

record webhook_request =
  wr_json :: bool
  wr_refused :: "nat option"
  wr_raw :: string
  wr_signature :: "string option"

text \<open>\<^verbatim>\<open>express.json()\<close>: the refusal, or \<^verbatim>\<open>req.body\<close> with the mark that a parser has
  read the body.\<close>

definition express_json :: "webhook_request \<Rightarrow> nat + payload \<times> bool" where
  "express_json req =
     (if wr_json req
      then (case wr_refused req of Some status \<Rightarrow> Inl status | None \<Rightarrow> Inr (NotRaw, True))
      else Inr (NotRaw, False))"

text \<open>\<^verbatim>\<open>express.raw({type: "application/json"})\<close>, on what the parser before it has left.\<close>

definition express_raw :: "webhook_request \<Rightarrow> payload \<times> bool \<Rightarrow> payload \<times> bool" where
  "express_raw req b =
     (if snd b then b
      else if wr_json req then (Buffer (wr_raw req), True)
      else b)"

text \<open>
  \<^verbatim>\<open>stripe.webhooks.constructEvent(payload, sig, secret)\<close>. On the raw bytes the library
  checks the signature header against the bytes and the shared secret and returns the
  event or throws; that check is the parameter \<open>verify\<close>. On a payload that is neither a
  string nor a Buffer it throws (the wording of its message depends on the version of the
  library).
\<close>

definition not_raw_message :: string where
  "not_raw_message = ''Webhook payload must be provided as a string or a Buffer''"

definition constructEvent ::
  "(string \<Rightarrow> string option \<Rightarrow> string + event) \<Rightarrow> payload \<Rightarrow> string option \<Rightarrow> string + event"
where
  "constructEvent verify p sig =
     (case p of Buffer raw \<Rightarrow> verify raw sig | NotRaw \<Rightarrow> Inl not_raw_message)"

text \<open>The route \<^verbatim>\<open>POST /payments/webhook\<close> as the server mounts it.\<close>

definition payments_webhook_route ::
  "(string \<Rightarrow> string option \<Rightarrow> string + event) \<Rightarrow> webhook_request \<Rightarrow> string \<Rightarrow> state
     \<Rightarrow> response \<times> state"
where
  "payments_webhook_route verify req now s =
     (case express_json req of
        Inl status \<Rightarrow> (Failed status, s)
      | Inr b \<Rightarrow>
          payments_webhook
            (constructEvent verify (fst (express_raw req b)) (wr_signature req)) now s)"

section \<open>Sequences of cancel, accept and reject requests\<close>

datatype op = Cancel | Accept | Reject

fun order_op :: "op \<Rightarrow> request \<Rightarrow> string \<Rightarrow> state \<Rightarrow> response \<times> state" where
  "order_op Cancel req now s = orders_cancel req now s"
| "order_op Accept req now s = orders_accept req now s"
| "order_op Reject req now s = orders_reject req now s"

text \<open>The state after a sequence of requests, each served at its own time.\<close>

fun run :: "(op \<times> request \<times> string) list \<Rightarrow> state \<Rightarrow> state" where
  "run [] s = s"
| "run ((op, req, now) # rs) s = run rs (snd (order_op op req now s))"

text \<open>
  What the three handlers have in common, read off their code: the role the route asks
  for, the order field and the token claim compared for ownership, the status written and
  the name of its timestamp.
\<close>

fun op_role :: "op \<Rightarrow> string" where
  "op_role Cancel = ''user''"
| "op_role Accept = ''chef''"
| "op_role Reject = ''chef''"

fun op_owner :: "op \<Rightarrow> doc \<Rightarrow> string \<times> jval" where
  "op_owner Cancel user = (''userEmail'', bson (field user ''email''))"
| "op_owner Accept user = (''chefId'', bson (field user ''chefId''))"
| "op_owner Reject user = (''chefId'', bson (field user ''chefId''))"

fun op_status :: "op \<Rightarrow> string" where
  "op_status Cancel = ''cancelled''"
| "op_status Accept = ''accepted''"
| "op_status Reject = ''rejected''"

fun op_stamp :: "op \<Rightarrow> string" where
  "op_stamp Cancel = ''cancelledAt''"
| "op_stamp Accept = ''acceptedAt''"
| "op_stamp Reject = ''rejectedAt''"

text \<open>The filter a request reaches \<^verbatim>\<open>updateOne\<close> with, if it gets that far.\<close>

definition op_filter :: "op \<Rightarrow> request \<Rightarrow> doc option" where
  "op_filter op req =
     (case cred req of
        Token user \<Rightarrow>
          (if field user ''role'' = Some (JStr (op_role op))
           then (case ObjectId (param_id req) of
                   None \<Rightarrow> None
                 | Some oid \<Rightarrow> Some [(''_id'', oid), op_owner op user])
           else None)
      | _ \<Rightarrow> None)"

text \<open>The document at position \<open>i\<close> is the first one of the collection that matches.\<close>

definition first_match :: "doc \<Rightarrow> doc list \<Rightarrow> nat \<Rightarrow> bool" where
  "first_match flt ds i =
     (i < length ds \<and> matches flt (ds ! i) \<and> list_all (\<lambda>d. \<not> matches flt d) (take i ds))"

text \<open>The request is one that updates the order at position \<open>i\<close>.\<close>

definition targets :: "op \<Rightarrow> request \<Rightarrow> doc list \<Rightarrow> nat \<Rightarrow> bool" where
  "targets op req ds i =
     (case op_filter op req of None \<Rightarrow> False | Some flt \<Rightarrow> first_match flt ds i)"

section \<open>Names for the filters and updates of the handlers\<close>

text \<open>Shorthands for the filter and \<^verbatim>\<open>$set\<close> documents that the handlers above pass to
  \<^verbatim>\<open>updateOne\<close>.\<close>

abbreviation cancel_filter :: "doc \<Rightarrow> jval \<Rightarrow> doc" where
  "cancel_filter user oid \<equiv> [(''_id'', oid), (''userEmail'', bson (field user ''email''))]"

abbreviation chef_filter :: "doc \<Rightarrow> jval \<Rightarrow> doc" where
  "chef_filter user oid \<equiv> [(''_id'', oid), (''chefId'', bson (field user ''chefId''))]"

abbreviation cancel_update :: "string \<Rightarrow> doc" where
  "cancel_update now \<equiv> [(''orderStatus'', JStr ''cancelled''), (''cancelledAt'', JStr now)]"

abbreviation accept_update :: "string \<Rightarrow> doc" where
  "accept_update now \<equiv> [(''orderStatus'', JStr ''accepted''), (''acceptedAt'', JStr now)]"

abbreviation reject_update :: "string \<Rightarrow> doc" where
  "reject_update now \<equiv> [(''orderStatus'', JStr ''rejected''), (''rejectedAt'', JStr now)]"

text \<open>A stored value that a condition on null selects: null itself, or an array that holds
  null.\<close>

definition null_like :: "jval \<Rightarrow> bool" where
  "null_like v = (v = JNull \<or> (case v of JArr xs \<Rightarrow> JNull \<in> set xs | _ \<Rightarrow> False))"

section \<open>Example data\<close>

text \<open>
  One customer, one chef and one order, with the tokens \<^verbatim>\<open>POST /auth/login\<close> issues for
  the two users, a payment attempt for the order and the gateway notification that
  settles it. \<open>ex_order_no_chef\<close> is an order document without a \<^verbatim>\<open>chefId\<close> field
  (\<^verbatim>\<open>POST /user/orders\<close> stores the request body as it comes, with or without one), and
  \<open>ex_order_array_chef\<close> is the order \<^verbatim>\<open>POST /orders\<close> stores for a body whose
  \<^verbatim>\<open>chefId\<close> is the array \<^verbatim>\<open>[null]\<close>. \<open>ex_verify\<close> stands for a signature check
  that accepts the example notification.
\<close>

definition ex_order_id :: string where
  "ex_order_id = ''64b7f0c2a1d3e4f5a6b7c8d9''"

definition ex_customer_user :: doc where
  "ex_customer_user =
     [(''_id'', JOid ''64b7f0c2a1d3e4f5a6b7c801''), (''name'', JStr ''User One''),
      (''email'', JStr ''u@x.com''), (''role'', JStr ''user''), (''status'', JStr ''active'')]"

definition ex_customer_token :: doc where
  "ex_customer_token =
     [(''email'', JStr ''u@x.com''), (''role'', JStr ''user''),
      (''id'', JStr ''64b7f0c2a1d3e4f5a6b7c801''),
      (''iat'', JNum 1704099600), (''exp'', JNum 1704186000)]"

definition ex_chef_user :: doc where
  "ex_chef_user =
     [(''_id'', JOid ''64b7f0c2a1d3e4f5a6b7c802''), (''name'', JStr ''Chef One''),
      (''email'', JStr ''chef@x.com''), (''role'', JStr ''chef''),
      (''status'', JStr ''active''), (''chefId'', JStr ''chef-1234'')]"

definition ex_chef_token :: doc where
  "ex_chef_token =
     [(''email'', JStr ''chef@x.com''), (''role'', JStr ''chef''),
      (''id'', JStr ''64b7f0c2a1d3e4f5a6b7c802''),
      (''iat'', JNum 1704099600), (''exp'', JNum 1704186000)]"

definition ex_order :: "string \<Rightarrow> doc" where
  "ex_order status =
     [(''_id'', JOid ex_order_id), (''mealId'', JStr ''m1''), (''mealName'', JStr ''Biryani''),
      (''chefId'', JStr ''chef-1234''), (''chefName'', JStr ''Chef One''), (''price'', JNum 20),
      (''userEmail'', JStr ''u@x.com''), (''orderStatus'', JStr status),
      (''paymentStatus'', JStr ''Pending''), (''orderTime'', JStr ''2024-01-01T10:00:00.000Z'')]"

definition ex_order_no_chef :: "string \<Rightarrow> doc" where
  "ex_order_no_chef status =
     [(''_id'', JOid ex_order_id), (''mealId'', JStr ''m1''),
      (''userEmail'', JStr ''u@x.com''), (''orderStatus'', JStr status),
      (''paymentStatus'', JStr ''unpaid''), (''orderTime'', JStr ''2024-01-01T10:00:00.000Z'')]"

definition ex_order_array_chef :: "string \<Rightarrow> doc" where
  "ex_order_array_chef status =
     [(''_id'', JOid ex_order_id), (''mealId'', JStr ''m1''), (''mealName'', JStr ''Biryani''),
      (''chefId'', JArr [JNull]), (''chefName'', JStr ''Chef One''), (''price'', JNum 20),
      (''userEmail'', JStr ''u@x.com''), (''orderStatus'', JStr status),
      (''paymentStatus'', JStr ''Pending''), (''orderTime'', JStr ''2024-01-01T10:00:00.000Z'')]"

definition ex_payment :: doc where
  "ex_payment =
     [(''_id'', JOid ''64b7f0c2a1d3e4f5a6b7c8e0''), (''orderId'', JStr ex_order_id),
      (''email'', JStr ''u@x.com''), (''amount'', JNum 20), (''currency'', JStr ''usd''),
      (''status'', JStr ''pending''), (''sessionId'', JStr ''cs_test_1''),
      (''createdAt'', JStr ''2024-01-01T10:01:00.000Z'')]"

definition ex_store :: "doc list \<Rightarrow> doc list \<Rightarrow> state" where
  "ex_store os ps = \<lparr>users = [ex_chef_user], orders = os, payments = ps, checkout_requests = []\<rparr>"

definition ex_customer_req :: "doc \<Rightarrow> request" where
  "ex_customer_req b = \<lparr>cred = Token ex_customer_token, param_id = ex_order_id, body = b\<rparr>"

definition ex_chef_req :: request where
  "ex_chef_req = \<lparr>cred = Token ex_chef_token, param_id = ex_order_id, body = []\<rparr>"

definition ex_event :: "string \<Rightarrow> event" where
  "ex_event sess =
     \<lparr>etype = ''checkout.session.completed'', session_id = sess,
      metadata_orderId = Some ex_order_id\<rparr>"

definition ex_raw_event :: "string \<Rightarrow> string" where
  \<open>ex_raw_event sess =
     ''{"type":"checkout.session.completed","data":{"object":{"id":"'' @ sess
       @ ''","metadata":{"orderId":"64b7f0c2a1d3e4f5a6b7c8d9"}}}}''\<close>

definition ex_signature :: string where
  "ex_signature =
     ''t=1704103740,v1=5257a869e7ecebeda32affa62cdca3fa51cad7e77a0e56ff536d0ce8e108d8bd''"

definition ex_notification :: "string \<Rightarrow> webhook_request" where
  "ex_notification sess =
     \<lparr>wr_json = True, wr_refused = None, wr_raw = ex_raw_event sess,
      wr_signature = Some ex_signature\<rparr>"

definition ex_verify :: "string \<Rightarrow> string \<Rightarrow> string option \<Rightarrow> string + event" where
  "ex_verify sess raw sig =
     (if raw = ex_raw_event sess \<and> sig = Some ex_signature then Inr (ex_event sess)
      else Inl ''No signatures found matching the expected signature for payload'')"

definition ex_session :: session where
  "ex_session = \<lparr>sid = ''cs_test_2'', url = ''https://checkout.stripe.com/c/pay/cs_test_2''\<rparr>"

definition ex_order_body :: "rat \<Rightarrow> doc" where
  "ex_order_body price =
     [(''mealId'', JStr ''m1''), (''mealName'', JStr ''Biryani''),
      (''chefId'', JStr ''chef-1234''), (''chefName'', JStr ''Chef One''),
      (''price'', JNum price)]"

definition ex_order_body_array_chef :: doc where
  "ex_order_body_array_chef =
     [(''mealId'', JStr ''m1''), (''mealName'', JStr ''Biryani''),
      (''chefId'', JArr [JNull]), (''chefName'', JStr ''Chef One''),
      (''price'', JNum 20)]"

definition ex_payment_body :: "rat \<Rightarrow> doc" where
  "ex_payment_body amount =
     [(''amount'', JNum amount), (''currency'', JStr ''usd''), (''orderId'', JStr ex_order_id)]"

section \<open>Facts about the collection operations\<close>

lemma field_update: "field (AList.update k v d) k' = (if k' = k then Some v else field d k')"
  by (simp add: field_def update_conv')

lemma updateOne_length: "length (fst (updateOne flt upd ds)) = length ds"
  by (induction ds) (auto split: prod.splits)

lemma updateOne_no_match:
  "list_all (\<lambda>d. \<not> matches flt d) ds \<Longrightarrow> updateOne flt upd ds = (ds, 0)"
  by (induction ds) auto

lemma updateOne_first_match:
  "first_match flt ds i \<Longrightarrow>
   updateOne flt upd ds =
     (ds[i := set_fields upd (ds ! i)], if set_fields upd (ds ! i) = ds ! i then 0 else 1)"
proof (induction ds arbitrary: i)
  case Nil
  then show ?case by (simp add: first_match_def)
next
  case (Cons d ds)
  show ?case
  proof (cases i)
    case 0
    with Cons.prems show ?thesis by (simp add: first_match_def)
  next
    case (Suc j)
    with Cons.prems have "\<not> matches flt d" and "first_match flt ds j"
      by (simp_all add: first_match_def)
    with Cons.IH [of j] Suc show ?thesis by simp
  qed
qed

lemma updateOne_nth:
  "i < length ds \<Longrightarrow>
   fst (updateOne flt upd ds) ! i =
     (if first_match flt ds i then set_fields upd (ds ! i) else ds ! i)"
proof (induction ds arbitrary: i)
  case Nil
  then show ?case by simp
next
  case (Cons d ds)
  show ?case
  proof (cases i)
    case 0
    then show ?thesis by (simp add: first_match_def split: prod.splits)
  next
    case (Suc j)
    with Cons.prems have j: "j < length ds" by simp
    show ?thesis
    proof (cases "matches flt d")
      case True
      with Suc show ?thesis by (simp add: first_match_def)
    next
      case False
      with Suc Cons.IH [OF j] j show ?thesis
        by (cases "updateOne flt upd ds") (simp add: first_match_def)
    qed
  qed
qed

lemma no_first_match:
  "(\<forall>i<length ds. \<not> first_match flt ds i) \<Longrightarrow> list_all (\<lambda>d. \<not> matches flt d) ds"
proof (induction ds)
  case Nil
  then show ?case by simp
next
  case (Cons d ds)
  from Cons.prems [rule_format, of 0] have nd: "\<not> matches flt d"
    by (simp add: first_match_def)
  have "\<forall>i<length ds. \<not> first_match flt ds i"
  proof (intro allI impI)
    fix i assume "i < length ds"
    with Cons.prems [rule_format, of "Suc i"] nd show "\<not> first_match flt ds i"
      by (simp add: first_match_def)
  qed
  with Cons.IH nd show ?case by simp
qed

lemma run_append: "run (rs @ rs') s = run rs' (run rs s)"
  by (induction rs arbitrary: s) auto

lemma order_op_blocked: "op_filter op req = None \<Longrightarrow> snd (order_op op req now s) = s"
  by (cases op)
     (auto simp add: op_filter_def orders_cancel_def orders_accept_def orders_reject_def
        verifyToken_def verifyRole_def
        split: credential.splits option.splits if_splits prod.splits)

lemma order_op_filtered:
  "op_filter op req = Some flt \<Longrightarrow>
   order_op op req now s =
     (modified_response
        (snd (updateOne flt [(''orderStatus'', JStr (op_status op)), (op_stamp op, JStr now)]
               (orders s))),
      s\<lparr>orders :=
          fst (updateOne flt [(''orderStatus'', JStr (op_status op)), (op_stamp op, JStr now)]
                (orders s))\<rparr>)"
  by (cases op)
     (auto simp add: op_filter_def orders_cancel_def orders_accept_def orders_reject_def
        verifyToken_def verifyRole_def
        split: credential.splits option.splits if_splits prod.splits)

lemma order_op_length: "length (orders (snd (order_op op req now s))) = length (orders s)"
proof (cases "op_filter op req")
  case None
  then show ?thesis by (simp add: order_op_blocked)
next
  case (Some flt)
  show ?thesis
    using updateOne_length [of flt "[(''orderStatus'', JStr (op_status op)), (op_stamp op, JStr now)]" "orders s"]
    by (simp add: order_op_filtered [OF Some])
qed

lemma run_length: "length (orders (run rs s)) = length (orders s)"
  by (induction rs arbitrary: s) (auto simp add: order_op_length)

lemma op_stamp_not_status: "op_stamp op \<noteq> ''orderStatus''"
  by (cases op) simp_all

lemma order_op_status:
  assumes "i < length (orders s)"
  shows "field (orders (snd (order_op op req now s)) ! i) ''orderStatus'' =
           (if targets op req (orders s) i then Some (JStr (op_status op))
            else field (orders s ! i) ''orderStatus'')"
proof (cases "op_filter op req")
  case None
  then show ?thesis by (simp add: order_op_blocked targets_def)
next
  case (Some flt)
  show ?thesis
    using updateOne_nth [OF assms, of flt "[(''orderStatus'', JStr (op_status op)), (op_stamp op, JStr now)]"]
          op_stamp_not_status [of op]
    by (simp add: order_op_filtered [OF Some] targets_def Some field_update)
qed

lemma order_op_untargeted:
  assumes "\<forall>j<length (orders s). \<not> targets op req (orders s) j"
  shows "snd (order_op op req now s) = s"
proof (cases "op_filter op req")
  case None
  then show ?thesis by (simp add: order_op_blocked)
next
  case (Some flt)
  with assms have "\<forall>j<length (orders s). \<not> first_match flt (orders s) j"
    by (simp add: targets_def)
  then have "list_all (\<lambda>d. \<not> matches flt d) (orders s)" by (rule no_first_match)
  then show ?thesis
    by (simp add: order_op_filtered [OF Some] updateOne_no_match)
qed

lemma order_op_targeted:
  assumes "targets op req (orders s) i"
  shows "fst (order_op op req now s) =
           modified_response
             (if set_fields [(''orderStatus'', JStr (op_status op)), (op_stamp op, JStr now)]
                   (orders s ! i) = orders s ! i then 0 else 1)"
proof (cases "op_filter op req")
  case None
  with assms show ?thesis by (simp add: targets_def)
next
  case (Some flt)
  with assms have "first_match flt (orders s) i" by (simp add: targets_def)
  then show ?thesis
    by (simp add: order_op_filtered [OF Some] updateOne_first_match del: set_fields.simps)
qed

lemma orders_cancel_eq:
  "cred req = Token user \<Longrightarrow> field user ''role'' = Some (JStr ''user'') \<Longrightarrow>
   ObjectId (param_id req) = Some oid \<Longrightarrow>
   orders_cancel req now s =
     (modified_response (snd (updateOne (cancel_filter user oid) (cancel_update now) (orders s))),
      s\<lparr>orders := fst (updateOne (cancel_filter user oid) (cancel_update now) (orders s))\<rparr>)"
  by (simp add: orders_cancel_def verifyToken_def verifyRole_def case_prod_beta)

lemma orders_accept_eq:
  "cred req = Token user \<Longrightarrow> field user ''role'' = Some (JStr ''chef'') \<Longrightarrow>
   ObjectId (param_id req) = Some oid \<Longrightarrow>
   orders_accept req now s =
     (modified_response (snd (updateOne (chef_filter user oid) (accept_update now) (orders s))),
      s\<lparr>orders := fst (updateOne (chef_filter user oid) (accept_update now) (orders s))\<rparr>)"
  by (simp add: orders_accept_def verifyToken_def verifyRole_def case_prod_beta)

lemma orders_reject_eq:
  "cred req = Token user \<Longrightarrow> field user ''role'' = Some (JStr ''chef'') \<Longrightarrow>
   ObjectId (param_id req) = Some oid \<Longrightarrow>
   orders_reject req now s =
     (modified_response (snd (updateOne (chef_filter user oid) (reject_update now) (orders s))),
      s\<lparr>orders := fst (updateOne (chef_filter user oid) (reject_update now) (orders s))\<rparr>)"
  by (simp add: orders_reject_def verifyToken_def verifyRole_def case_prod_beta)

lemma json_object_field_absent:
  "k \<notin> fst ` set kvs \<Longrightarrow> field (json_object kvs) k = None"
  by (induction kvs rule: json_object.induct) (auto simp add: field_def)

lemma login_token_no_chefId:
  assumes "auth_login bdy iat s0 = (resp, Some tok)"
  shows "field tok ''chefId'' = None"
proof -
  from assms obtain user where
    tok: "tok = jwt_sign [(''email'', field user ''email''), (''role'', field user ''role''),
                          (''id'', field user ''_id'')] iat"
    by (auto simp add: auth_login_def split: option.splits)
  have "field (json_object [(''email'', field user ''email''), (''role'', field user ''role''),
                          (''id'', field user ''_id'')]) ''chefId'' = None"
    by (rule json_object_field_absent) simp
  then show ?thesis
    by (simp add: tok jwt_sign_def field_def)
qed

lemma json_object_keys: "fst ` set (json_object kvs) \<subseteq> fst ` set kvs"
  by (induction kvs rule: json_object.induct) auto

lemma login_token_keys:
  assumes "auth_login bdy iat s0 = (resp, Some tok)"
  shows "set (map fst tok) \<subseteq> {''email'', ''role'', ''id'', ''iat'', ''exp''}"
proof -
  from assms obtain user where
    tok: "tok = jwt_sign [(''email'', field user ''email''), (''role'', field user ''role''),
                          (''id'', field user ''_id'')] iat"
    by (auto simp add: auth_login_def split: option.splits)
  from json_object_keys [of "[(''email'', field user ''email''), (''role'', field user ''role''),
                          (''id'', field user ''_id'')]"]
  show ?thesis
    by (auto simp add: tok jwt_sign_def)
qed

lemma null_filter_skips:
  "field d k = Some c \<Longrightarrow> \<not> null_like c \<Longrightarrow> \<not> matches [(k0, q), (k, JNull)] d"
  by (simp add: matches_def value_matches_def null_like_def)

lemma webhook_route_refuses:
  "payments_webhook_route verify req now s =
     ((case (if wr_json req then wr_refused req else None) of
         Some status \<Rightarrow> Failed status
       | None \<Rightarrow> Send 400 (''Webhook Error: '' @ not_raw_message)),
      s)"
  by (simp add: payments_webhook_route_def express_json_def express_raw_def constructEvent_def
        payments_webhook_def split: option.splits)

lemmas ex_defs =
  ex_order_id_def ex_customer_token_def ex_chef_user_def ex_chef_token_def ex_order_def
  ex_order_no_chef_def ex_payment_def ex_store_def ex_customer_req_def ex_chef_req_def
  ex_event_def ex_session_def ex_order_body_def ex_payment_body_def ex_customer_user_def
  ex_order_array_chef_def ex_raw_event_def ex_signature_def ex_notification_def ex_verify_def
  ex_order_body_array_chef_def

lemmas eval_defs =
  orders_cancel_def orders_accept_def orders_reject_def orders_post_def payments_create_def
  payments_webhook_def auth_login_def verifyToken_def verifyRole_def ObjectId_def is_hex_def
  hex_lower_def matches_def value_matches_def field_def modified_response_def received_def insertOne_def
  findOne_def jwt_sign_def js_or_def first_match_def targets_def op_filter_def
  null_like_def Let_def

section \<open>The order lifecycle over sequences of requests\<close>

text \<open>
  C1, as the code has it. None of cancel, accept and reject looks at \<open>orderStatus\<close>. Over
  any sequence of such requests, a further request whose id and ownership filter selects
  an order overwrites that order's \<open>orderStatus\<close> with its own status, whatever the
  status was before, and is answered with \<^verbatim>\<open>modifiedCount\<close> 1 (0 only when the write
  leaves the document as it was); so several of the operations can succeed on one order,
  and its status is always the one written by the last request that selected it. A request
  that selects no order leaves the whole state unchanged.
\<close>

theorem last_matching_request_wins:
  "i < length (orders s) \<Longrightarrow>
   field (orders (run (rs @ [(op, req, now)]) s) ! i) ''orderStatus'' =
     (if targets op req (orders (run rs s)) i then Some (JStr (op_status op))
      else field (orders (run rs s) ! i) ''orderStatus'')
   \<and> (targets op req (orders (run rs s)) i \<longrightarrow>
        fst (order_op op req now (run rs s)) =
          modified_response
            (if set_fields [(''orderStatus'', JStr (op_status op)), (op_stamp op, JStr now)]
                  (orders (run rs s) ! i) = orders (run rs s) ! i then 0 else 1))
   \<and> ((\<forall>j<length (orders s). \<not> targets op req (orders (run rs s)) j) \<longrightarrow>
        run (rs @ [(op, req, now)]) s = run rs s)"
  using order_op_status [of i "run rs s" op req now] order_op_untargeted [of "run rs s" op req now]
    order_op_targeted [of op req "run rs s" i now]
  by (simp add: run_append run_length del: set_fields.simps)

text \<open>
  The hypotheses of C1 hold on an example: after a first cancel, a second cancel by the
  customer selects the order again and succeeds, and an accept by the chef, whose token has
  no \<^verbatim>\<open>chefId\<close>, selects nothing and changes nothing.
\<close>

theorem last_matching_request_wins_witness:
  "0 < length (orders (ex_store [ex_order ''pending''] []))
   \<and> targets Cancel (ex_customer_req [])
        (orders (run [(Cancel, ex_customer_req [], ''2024-01-01T10:05:00.000Z'')]
           (ex_store [ex_order ''pending''] []))) 0
   \<and> field (orders (run ([(Cancel, ex_customer_req [], ''2024-01-01T10:05:00.000Z'')]
                         @ [(Cancel, ex_customer_req [], ''2024-01-01T10:09:00.000Z'')])
              (ex_store [ex_order ''pending''] [])) ! 0) ''orderStatus''
       = Some (JStr ''cancelled'')
   \<and> fst (order_op Cancel (ex_customer_req []) ''2024-01-01T10:09:00.000Z''
            (run [(Cancel, ex_customer_req [], ''2024-01-01T10:05:00.000Z'')]
               (ex_store [ex_order ''pending''] []))) = modified_response 1
   \<and> length (orders (ex_store [ex_order ''pending''] [])) = 1
   \<and> \<not> targets Accept ex_chef_req
         (orders (run [(Cancel, ex_customer_req [], ''2024-01-01T10:05:00.000Z'')]
            (ex_store [ex_order ''pending''] []))) 0
   \<and> run ([(Cancel, ex_customer_req [], ''2024-01-01T10:05:00.000Z'')]
           @ [(Accept, ex_chef_req, ''2024-01-01T10:09:00.000Z'')])
          (ex_store [ex_order ''pending''] [])
       = run [(Cancel, ex_customer_req [], ''2024-01-01T10:05:00.000Z'')]
           (ex_store [ex_order ''pending''] [])"
proof -
  have len: "0 < length (orders (ex_store [ex_order ''pending''] []))"
    by (simp add: ex_defs)
  have tg: "targets Cancel (ex_customer_req [])
        (orders (run [(Cancel, ex_customer_req [], ''2024-01-01T10:05:00.000Z'')]
           (ex_store [ex_order ''pending''] []))) 0"
    by (simp add: ex_defs eval_defs)
  have nt: "\<forall>j<length (orders (ex_store [ex_order ''pending''] [])).
         \<not> targets Accept ex_chef_req
             (orders (run [(Cancel, ex_customer_req [], ''2024-01-01T10:05:00.000Z'')]
                (ex_store [ex_order ''pending''] []))) j"
    by (simp add: ex_defs eval_defs)
  from last_matching_request_wins [OF len,
      of "[(Cancel, ex_customer_req [], ''2024-01-01T10:05:00.000Z'')]"
         Cancel "ex_customer_req []" "''2024-01-01T10:09:00.000Z''"]
    last_matching_request_wins [OF len,
      of "[(Cancel, ex_customer_req [], ''2024-01-01T10:05:00.000Z'')]"
         Accept ex_chef_req "''2024-01-01T10:09:00.000Z''"]
    len tg nt
  have "field (orders (run ([(Cancel, ex_customer_req [], ''2024-01-01T10:05:00.000Z'')]
                         @ [(Cancel, ex_customer_req [], ''2024-01-01T10:09:00.000Z'')])
              (ex_store [ex_order ''pending''] [])) ! 0) ''orderStatus''
       = Some (JStr ''cancelled'')
     \<and> run ([(Cancel, ex_customer_req [], ''2024-01-01T10:05:00.000Z'')]
           @ [(Accept, ex_chef_req, ''2024-01-01T10:09:00.000Z'')])
          (ex_store [ex_order ''pending''] [])
       = run [(Cancel, ex_customer_req [], ''2024-01-01T10:05:00.000Z'')]
           (ex_store [ex_order ''pending''] [])"
    by simp
  moreover have "fst (order_op Cancel (ex_customer_req []) ''2024-01-01T10:09:00.000Z''
            (run [(Cancel, ex_customer_req [], ''2024-01-01T10:05:00.000Z'')]
               (ex_store [ex_order ''pending''] []))) = modified_response 1"
    by (simp add: ex_defs eval_defs)
  moreover have "length (orders (ex_store [ex_order ''pending''] [])) = 1"
    by (simp add: ex_defs)
  moreover from nt len have "\<not> targets Accept ex_chef_req
         (orders (run [(Cancel, ex_customer_req [], ''2024-01-01T10:05:00.000Z'')]
            (ex_store [ex_order ''pending''] []))) 0"
    by blast
  ultimately show ?thesis using len tg by blast
qed

text \<open>
  C1 as stated fails: a pending order is cancelled by its customer, and a second cancel a
  few minutes later succeeds again (\<^verbatim>\<open>modifiedCount\<close> 1) and rewrites \<^verbatim>\<open>cancelledAt\<close>.
\<close>

theorem cancel_succeeds_twice_counterexample:
  "fst (orders_cancel (ex_customer_req []) ''2024-01-01T10:05:00.000Z''
          (ex_store [ex_order ''pending''] [])) = modified_response 1
   \<and> snd (orders_cancel (ex_customer_req []) ''2024-01-01T10:05:00.000Z''
          (ex_store [ex_order ''pending''] []))
       = ex_store [ex_order ''cancelled'' @ [(''cancelledAt'', JStr ''2024-01-01T10:05:00.000Z'')]] []
   \<and> orders_cancel (ex_customer_req []) ''2024-01-01T10:09:00.000Z''
        (ex_store [ex_order ''cancelled'' @ [(''cancelledAt'', JStr ''2024-01-01T10:05:00.000Z'')]] [])
       = (modified_response 1,
          ex_store [ex_order ''cancelled'' @ [(''cancelledAt'', JStr ''2024-01-01T10:09:00.000Z'')]] [])"
  by (simp add: ex_defs eval_defs)

section \<open>Settlement notifications\<close>

text \<open>
  C2, at the notification it is about. The gateway notifies the server that the checkout
  for a cancelled order is complete, with a signature that the check accepts for the raw
  bytes. The claim has the handler set the order's \<open>paymentStatus\<close> to paid. The server
  answers 400 and writes nothing, so \<open>paymentStatus\<close> stays as it was:
  \<^verbatim>\<open>express.json()\<close> has parsed the body before the route's \<^verbatim>\<open>express.raw\<close> could read
  it, and \<^verbatim>\<open>constructEvent\<close>, given an object in place of the raw bytes, throws.
\<close>

theorem signed_settlement_is_refused:
  "ex_verify ''cs_test_1'' (wr_raw (ex_notification ''cs_test_1''))
       (wr_signature (ex_notification ''cs_test_1'')) = Inr (ex_event ''cs_test_1'')
   \<and> payments_webhook_route (ex_verify ''cs_test_1'') (ex_notification ''cs_test_1'')
        ''2024-01-01T10:09:00.000Z'' (ex_store [ex_order ''cancelled''] [ex_payment])
       = (Send 400 (''Webhook Error: '' @ not_raw_message),
          ex_store [ex_order ''cancelled''] [ex_payment])
   \<and> field (ex_order ''cancelled'') ''paymentStatus'' = Some (JStr ''Pending'')"
  by (simp add: webhook_route_refuses) (simp add: ex_defs field_def)

text \<open>
  C3, at the notification it is about. The same correctly signed notification is
  delivered twice. The claim has the Payment become paid and every delivery answered with
  \<^verbatim>\<open>{received: true}\<close>. Both deliveries are answered with 400 and neither writes: the
  \<open>status\<close> of the Payment stays pending. The cause is the one of C2.
\<close>

theorem redelivered_settlement_is_refused_each_time:
  "ex_verify ''cs_test_1'' (wr_raw (ex_notification ''cs_test_1''))
       (wr_signature (ex_notification ''cs_test_1'')) = Inr (ex_event ''cs_test_1'')
   \<and> payments_webhook_route (ex_verify ''cs_test_1'') (ex_notification ''cs_test_1'')
        ''2024-01-01T10:05:00.000Z'' (ex_store [ex_order ''pending''] [ex_payment])
       = (Send 400 (''Webhook Error: '' @ not_raw_message),
          ex_store [ex_order ''pending''] [ex_payment])
   \<and> payments_webhook_route (ex_verify ''cs_test_1'') (ex_notification ''cs_test_1'')
        ''2024-01-01T10:09:00.000Z''
        (snd (payments_webhook_route (ex_verify ''cs_test_1'') (ex_notification ''cs_test_1'')
                ''2024-01-01T10:05:00.000Z'' (ex_store [ex_order ''pending''] [ex_payment])))
       = (Send 400 (''Webhook Error: '' @ not_raw_message),
          ex_store [ex_order ''pending''] [ex_payment])
   \<and> field ex_payment ''status'' = Some (JStr ''pending'')"
  by (simp add: webhook_route_refuses) (simp add: ex_defs field_def)

text \<open>
  C4. A webhook request whose payload fails signature verification is answered with
  HTTP 400 and leaves the whole state, every Payment and every Order, as it was.
\<close>

theorem webhook_bad_signature_no_write:
  "payments_webhook (Inl msg) now s = (Send 400 (''Webhook Error: '' @ msg), s)"
  by (simp add: payments_webhook_def)

text \<open>
  C5, at the notification it is about. A correctly signed notification arrives for a
  session that no stored Payment has. The claim has the handler discard it and still
  respond successfully. Nothing is written, but the answer is 400, as for every
  notification. The cause is the one of C2.
\<close>

theorem signed_unknown_session_is_refused:
  "ex_verify ''cs_other'' (wr_raw (ex_notification ''cs_other''))
       (wr_signature (ex_notification ''cs_other'')) = Inr (ex_event ''cs_other'')
   \<and> field ex_payment ''sessionId'' = Some (JStr ''cs_test_1'')
   \<and> payments_webhook_route (ex_verify ''cs_other'') (ex_notification ''cs_other'')
        ''2024-01-01T10:09:00.000Z'' (ex_store [ex_order ''pending''] [ex_payment])
       = (Send 400 (''Webhook Error: '' @ not_raw_message),
          ex_store [ex_order ''pending''] [ex_payment])"
  by (simp add: webhook_route_refuses) (simp add: ex_defs field_def)

section \<open>Cancel, accept and reject\<close>

text \<open>
  C6, as the code has it. For a requester with role user and a well-formed id, cancel
  selects the first order with that id whose \<open>userEmail\<close> is the requester's email,
  whatever its \<open>orderStatus\<close>; it sets \<open>orderStatus\<close> to cancelled and
  \<open>cancelledAt\<close> to the current time and reports \<^verbatim>\<open>modifiedCount\<close> 1 (0 only when the
  write leaves the document as it was). When there is no such order, because the id is
  unknown or the order belongs to someone else, the answer is still 200 with
  \<^verbatim>\<open>{success: true, modifiedCount: 0}\<close> and nothing is written.
\<close>

theorem cancel_checks_id_and_owner_only:
  assumes "cred req = Token user" and "field user ''role'' = Some (JStr ''user'')"
    and "ObjectId (param_id req) = Some oid"
  shows "(list_all (\<lambda>d. \<not> matches (cancel_filter user oid) d) (orders s) \<longrightarrow>
            orders_cancel req now s = (modified_response 0, s))
       \<and> (first_match (cancel_filter user oid) (orders s) i \<longrightarrow>
            orders_cancel req now s =
              (modified_response
                 (if set_fields (cancel_update now) (orders s ! i) = orders s ! i then 0 else 1),
               s\<lparr>orders := (orders s)[i := set_fields (cancel_update now) (orders s ! i)]\<rparr>)
            \<and> field (set_fields (cancel_update now) (orders s ! i)) ''orderStatus''
                = Some (JStr ''cancelled'')
            \<and> field (set_fields (cancel_update now) (orders s ! i)) ''cancelledAt''
                = Some (JStr now))"
proof (intro conjI impI)
  assume "list_all (\<lambda>d. \<not> matches (cancel_filter user oid) d) (orders s)"
  then show "orders_cancel req now s = (modified_response 0, s)"
    by (simp add: orders_cancel_eq [OF assms] updateOne_no_match)
next
  assume "first_match (cancel_filter user oid) (orders s) i"
  then show "orders_cancel req now s =
      (modified_response
         (if set_fields (cancel_update now) (orders s ! i) = orders s ! i then 0 else 1),
       s\<lparr>orders := (orders s)[i := set_fields (cancel_update now) (orders s ! i)]\<rparr>)"
    by (simp add: orders_cancel_eq [OF assms] updateOne_first_match)
next
  show "field (set_fields (cancel_update now) (orders s ! i)) ''orderStatus''
          = Some (JStr ''cancelled'')"
    by (simp add: field_update)
next
  show "field (set_fields (cancel_update now) (orders s ! i)) ''cancelledAt'' = Some (JStr now)"
    by (simp add: field_update)
qed

text \<open>
  The hypotheses of C6 hold on an example, on an empty collection and on a pending order.
\<close>

theorem cancel_checks_id_and_owner_only_witness:
  "cred (ex_customer_req []) = Token ex_customer_token
   \<and> field ex_customer_token ''role'' = Some (JStr ''user'')
   \<and> ObjectId (param_id (ex_customer_req [])) = Some (JOid ex_order_id)
   \<and> list_all (\<lambda>d. \<not> matches (cancel_filter ex_customer_token (JOid ex_order_id)) d)
        (orders (ex_store [] []))
   \<and> orders_cancel (ex_customer_req []) ''2024-01-01T10:05:00.000Z'' (ex_store [] [])
       = (modified_response 0, ex_store [] [])
   \<and> first_match (cancel_filter ex_customer_token (JOid ex_order_id))
        (orders (ex_store [ex_order ''pending''] [])) 0
   \<and> orders_cancel (ex_customer_req []) ''2024-01-01T10:05:00.000Z''
        (ex_store [ex_order ''pending''] [])
       = (modified_response 1,
          ex_store [ex_order ''cancelled'' @ [(''cancelledAt'', JStr ''2024-01-01T10:05:00.000Z'')]] [])"
proof -
  have h1: "cred (ex_customer_req []) = Token ex_customer_token"
    by (simp add: ex_defs)
  have h2: "field ex_customer_token ''role'' = Some (JStr ''user'')"
    by (simp add: ex_defs eval_defs)
  have h3: "ObjectId (param_id (ex_customer_req [])) = Some (JOid ex_order_id)"
    by (simp add: ex_defs eval_defs)
  have none: "list_all (\<lambda>d. \<not> matches (cancel_filter ex_customer_token (JOid ex_order_id)) d)
        (orders (ex_store [] []))"
    by (simp add: ex_defs)
  have fm: "first_match (cancel_filter ex_customer_token (JOid ex_order_id))
        (orders (ex_store [ex_order ''pending''] [])) 0"
    by (simp add: ex_defs eval_defs)
  from cancel_checks_id_and_owner_only [OF h1 h2 h3, of "ex_store [] []" "''2024-01-01T10:05:00.000Z''" 0]
    none
  have a: "orders_cancel (ex_customer_req []) ''2024-01-01T10:05:00.000Z'' (ex_store [] [])
       = (modified_response 0, ex_store [] [])"
    by blast
  from cancel_checks_id_and_owner_only [OF h1 h2 h3,
      of "ex_store [ex_order ''pending''] []" "''2024-01-01T10:05:00.000Z''" 0] fm
  have "orders_cancel (ex_customer_req []) ''2024-01-01T10:05:00.000Z''
        (ex_store [ex_order ''pending''] [])
       = (modified_response
           (if set_fields (cancel_update ''2024-01-01T10:05:00.000Z'')
                 (orders (ex_store [ex_order ''pending''] []) ! 0)
               = orders (ex_store [ex_order ''pending''] []) ! 0 then 0 else 1),
          (ex_store [ex_order ''pending''] [])
            \<lparr>orders := (orders (ex_store [ex_order ''pending''] []))
               [0 := set_fields (cancel_update ''2024-01-01T10:05:00.000Z'')
                       (orders (ex_store [ex_order ''pending''] []) ! 0)]\<rparr>)"
    by blast
  then have b: "orders_cancel (ex_customer_req []) ''2024-01-01T10:05:00.000Z''
        (ex_store [ex_order ''pending''] [])
       = (modified_response 1,
          ex_store [ex_order ''cancelled'' @ [(''cancelledAt'', JStr ''2024-01-01T10:05:00.000Z'')]] [])"
    by (simp add: ex_defs)
  from h1 h2 h3 none fm a b show ?thesis by blast
qed

text \<open>
  C6 as stated fails: cancelling an order that the chef has already accepted succeeds and
  leaves it cancelled.
\<close>

theorem cancel_of_accepted_order_counterexample:
  "orders_cancel (ex_customer_req []) ''2024-01-01T10:09:00.000Z''
     (ex_store [ex_order ''accepted'' @ [(''acceptedAt'', JStr ''2024-01-01T10:05:00.000Z'')]] [])
   = (modified_response 1,
      ex_store [ex_order ''cancelled'' @
                  [(''acceptedAt'', JStr ''2024-01-01T10:05:00.000Z''),
                   (''cancelledAt'', JStr ''2024-01-01T10:09:00.000Z'')]] [])"
  by (simp add: ex_defs eval_defs)

text \<open>
  C7, as the code has it. For a requester with role chef and a well-formed id, accept and
  reject select the first order with that id whose \<open>chefId\<close> equals the \<^verbatim>\<open>chefId\<close> of
  the requester's token (a token without \<^verbatim>\<open>chefId\<close> selects orders whose \<open>chefId\<close> is
  null, missing or an array that holds null), whatever its \<open>orderStatus\<close>; they set \<open>orderStatus\<close> to accepted
  or rejected and \<open>acceptedAt\<close> or \<open>rejectedAt\<close> to the current time and report
  \<^verbatim>\<open>modifiedCount\<close> 1 (0 only when the write leaves the document as it was). When there
  is no such order the answer is still 200 with \<^verbatim>\<open>{success: true, modifiedCount: 0}\<close> and
  nothing is written.
\<close>

theorem accept_reject_check_id_and_chef_only:
  assumes "cred req = Token user" and "field user ''role'' = Some (JStr ''chef'')"
    and "ObjectId (param_id req) = Some oid"
  shows "(list_all (\<lambda>d. \<not> matches (chef_filter user oid) d) (orders s) \<longrightarrow>
            orders_accept req now s = (modified_response 0, s)
          \<and> orders_reject req now s = (modified_response 0, s))
       \<and> (first_match (chef_filter user oid) (orders s) i \<longrightarrow>
            orders_accept req now s =
              (modified_response
                 (if set_fields (accept_update now) (orders s ! i) = orders s ! i then 0 else 1),
               s\<lparr>orders := (orders s)[i := set_fields (accept_update now) (orders s ! i)]\<rparr>)
            \<and> orders_reject req now s =
              (modified_response
                 (if set_fields (reject_update now) (orders s ! i) = orders s ! i then 0 else 1),
               s\<lparr>orders := (orders s)[i := set_fields (reject_update now) (orders s ! i)]\<rparr>)
            \<and> field (set_fields (accept_update now) (orders s ! i)) ''orderStatus''
                = Some (JStr ''accepted'')
            \<and> field (set_fields (accept_update now) (orders s ! i)) ''acceptedAt''
                = Some (JStr now)
            \<and> field (set_fields (reject_update now) (orders s ! i)) ''orderStatus''
                = Some (JStr ''rejected'')
            \<and> field (set_fields (reject_update now) (orders s ! i)) ''rejectedAt''
                = Some (JStr now))"
proof -
  have none: "orders_accept req now s = (modified_response 0, s)
              \<and> orders_reject req now s = (modified_response 0, s)"
    if "list_all (\<lambda>d. \<not> matches (chef_filter user oid) d) (orders s)"
    using that
    by (simp add: orders_accept_eq [OF assms] orders_reject_eq [OF assms] updateOne_no_match)
  have some: "orders_accept req now s =
        (modified_response
           (if set_fields (accept_update now) (orders s ! i) = orders s ! i then 0 else 1),
         s\<lparr>orders := (orders s)[i := set_fields (accept_update now) (orders s ! i)]\<rparr>)
      \<and> orders_reject req now s =
        (modified_response
           (if set_fields (reject_update now) (orders s ! i) = orders s ! i then 0 else 1),
         s\<lparr>orders := (orders s)[i := set_fields (reject_update now) (orders s ! i)]\<rparr>)"
    if "first_match (chef_filter user oid) (orders s) i"
    using that
    by (simp add: orders_accept_eq [OF assms] orders_reject_eq [OF assms] updateOne_first_match)
  have fields:
    "field (set_fields (accept_update now) (orders s ! i)) ''orderStatus'' = Some (JStr ''accepted'')"
    "field (set_fields (accept_update now) (orders s ! i)) ''acceptedAt'' = Some (JStr now)"
    "field (set_fields (reject_update now) (orders s ! i)) ''orderStatus'' = Some (JStr ''rejected'')"
    "field (set_fields (reject_update now) (orders s ! i)) ''rejectedAt'' = Some (JStr now)"
    by (simp_all add: field_update)
  from none some fields show ?thesis by blast
qed

text \<open>
  The hypotheses of C7 hold on an example, on an order of another chef and on an order
  without \<open>chefId\<close>.
\<close>

theorem accept_reject_check_id_and_chef_only_witness:
  "cred ex_chef_req = Token ex_chef_token
   \<and> field ex_chef_token ''role'' = Some (JStr ''chef'')
   \<and> ObjectId (param_id ex_chef_req) = Some (JOid ex_order_id)
   \<and> list_all (\<lambda>d. \<not> matches (chef_filter ex_chef_token (JOid ex_order_id)) d)
        (orders (ex_store [ex_order ''pending''] []))
   \<and> orders_accept ex_chef_req ''2024-01-01T10:05:00.000Z'' (ex_store [ex_order ''pending''] [])
       = (modified_response 0, ex_store [ex_order ''pending''] [])
   \<and> orders_reject ex_chef_req ''2024-01-01T10:05:00.000Z'' (ex_store [ex_order ''pending''] [])
       = (modified_response 0, ex_store [ex_order ''pending''] [])
   \<and> first_match (chef_filter ex_chef_token (JOid ex_order_id))
        (orders (ex_store [ex_order_no_chef ''pending''] [])) 0
   \<and> orders_accept ex_chef_req ''2024-01-01T10:05:00.000Z''
        (ex_store [ex_order_no_chef ''pending''] [])
       = (modified_response 1,
          ex_store [ex_order_no_chef ''accepted'' @
                      [(''acceptedAt'', JStr ''2024-01-01T10:05:00.000Z'')]] [])
   \<and> orders_reject ex_chef_req ''2024-01-01T10:05:00.000Z''
        (ex_store [ex_order_no_chef ''pending''] [])
       = (modified_response 1,
          ex_store [ex_order_no_chef ''rejected'' @
                      [(''rejectedAt'', JStr ''2024-01-01T10:05:00.000Z'')]] [])"
proof -
  have h1: "cred ex_chef_req = Token ex_chef_token"
    by (simp add: ex_defs)
  have h2: "field ex_chef_token ''role'' = Some (JStr ''chef'')"
    by (simp add: ex_defs eval_defs)
  have h3: "ObjectId (param_id ex_chef_req) = Some (JOid ex_order_id)"
    by (simp add: ex_defs eval_defs)
  have none: "list_all (\<lambda>d. \<not> matches (chef_filter ex_chef_token (JOid ex_order_id)) d)
        (orders (ex_store [ex_order ''pending''] []))"
    by (simp add: ex_defs eval_defs)
  have fm: "first_match (chef_filter ex_chef_token (JOid ex_order_id))
        (orders (ex_store [ex_order_no_chef ''pending''] [])) 0"
    by (simp add: ex_defs eval_defs)
  from accept_reject_check_id_and_chef_only [OF h1 h2 h3,
      of "ex_store [ex_order ''pending''] []" "''2024-01-01T10:05:00.000Z''" 0] none
  have a: "orders_accept ex_chef_req ''2024-01-01T10:05:00.000Z'' (ex_store [ex_order ''pending''] [])
       = (modified_response 0, ex_store [ex_order ''pending''] [])
     \<and> orders_reject ex_chef_req ''2024-01-01T10:05:00.000Z'' (ex_store [ex_order ''pending''] [])
       = (modified_response 0, ex_store [ex_order ''pending''] [])"
    by blast
  from accept_reject_check_id_and_chef_only [OF h1 h2 h3,
      of "ex_store [ex_order_no_chef ''pending''] []" "''2024-01-01T10:05:00.000Z''" 0] fm
  have "orders_accept ex_chef_req ''2024-01-01T10:05:00.000Z''
          (ex_store [ex_order_no_chef ''pending''] [])
       = (modified_response
            (if set_fields (accept_update ''2024-01-01T10:05:00.000Z'')
                  (orders (ex_store [ex_order_no_chef ''pending''] []) ! 0)
                = orders (ex_store [ex_order_no_chef ''pending''] []) ! 0 then 0 else 1),
          (ex_store [ex_order_no_chef ''pending''] [])
            \<lparr>orders := (orders (ex_store [ex_order_no_chef ''pending''] []))
               [0 := set_fields (accept_update ''2024-01-01T10:05:00.000Z'')
                       (orders (ex_store [ex_order_no_chef ''pending''] []) ! 0)]\<rparr>)
     \<and> orders_reject ex_chef_req ''2024-01-01T10:05:00.000Z''
          (ex_store [ex_order_no_chef ''pending''] [])
       = (modified_response
            (if set_fields (reject_update ''2024-01-01T10:05:00.000Z'')
                  (orders (ex_store [ex_order_no_chef ''pending''] []) ! 0)
                = orders (ex_store [ex_order_no_chef ''pending''] []) ! 0 then 0 else 1),
          (ex_store [ex_order_no_chef ''pending''] [])
            \<lparr>orders := (orders (ex_store [ex_order_no_chef ''pending''] []))
               [0 := set_fields (reject_update ''2024-01-01T10:05:00.000Z'')
                       (orders (ex_store [ex_order_no_chef ''pending''] []) ! 0)]\<rparr>)"
    by blast
  then have b: "orders_accept ex_chef_req ''2024-01-01T10:05:00.000Z''
        (ex_store [ex_order_no_chef ''pending''] [])
       = (modified_response 1,
          ex_store [ex_order_no_chef ''accepted'' @
                      [(''acceptedAt'', JStr ''2024-01-01T10:05:00.000Z'')]] [])
     \<and> orders_reject ex_chef_req ''2024-01-01T10:05:00.000Z''
        (ex_store [ex_order_no_chef ''pending''] [])
       = (modified_response 1,
          ex_store [ex_order_no_chef ''rejected'' @
                      [(''rejectedAt'', JStr ''2024-01-01T10:05:00.000Z'')]] [])"
    by (simp add: ex_defs)
  from h1 h2 h3 none fm a b show ?thesis by blast
qed

text \<open>
  C7 as stated fails: a chef accepts an order that its customer has already cancelled.
\<close>

theorem accept_of_cancelled_order_counterexample:
  "orders_accept ex_chef_req ''2024-01-01T10:09:00.000Z''
     (ex_store [ex_order_no_chef ''cancelled''] [])
   = (modified_response 1,
      ex_store [ex_order_no_chef ''accepted'' @
                  [(''acceptedAt'', JStr ''2024-01-01T10:09:00.000Z'')]] [])"
  by (simp add: ex_defs eval_defs)

section \<open>Placing an order and creating a checkout\<close>

text \<open>
  C8, as the code has it. For a requester with role user, \<^verbatim>\<open>POST /orders\<close> asks that
  \<^verbatim>\<open>mealId\<close>, \<^verbatim>\<open>mealName\<close> or \<^verbatim>\<open>foodName\<close>, \<^verbatim>\<open>chefId\<close>, \<^verbatim>\<open>chefName\<close> and \<^verbatim>\<open>price\<close> are
  present and truthy, so a price must not be zero but may be negative. If one of them
  is not, the answer is 400 and nothing is written. Otherwise one Order is appended that
  has exactly the fields \<open>_id\<close>, \<open>mealId\<close>, \<open>mealName\<close>, \<open>chefId\<close>, \<open>chefName\<close>,
  \<open>price\<close>, \<open>userEmail\<close>, \<open>orderStatus\<close>, \<open>paymentStatus\<close> and \<open>orderTime\<close>:
  the fresh id, the values of the request (\<open>mealName\<close> is the request's \<^verbatim>\<open>mealName\<close>, or
  its \<^verbatim>\<open>foodName\<close> when that is missing or falsy), the requester's email, \<open>orderStatus\<close>
  pending and the current time as \<open>orderTime\<close>.
\<close>

theorem orders_post_checks_presence_only:
  assumes "cred req = Token user" and "field user ''role'' = Some (JStr ''user'')"
  shows "(truthy (field (body req) ''mealId'')
          \<and> truthy (js_or (field (body req) ''mealName'') (field (body req) ''foodName''))
          \<and> truthy (field (body req) ''chefId'') \<and> truthy (field (body req) ''chefName'')
          \<and> truthy (field (body req) ''price'') \<longrightarrow>
            (\<exists>mealId mealName chefId chefName price paymentStatus.
                field (body req) ''mealId'' = Some mealId
              \<and> js_or (field (body req) ''mealName'') (field (body req) ''foodName'')
                  = Some mealName
              \<and> field (body req) ''chefId'' = Some chefId
              \<and> field (body req) ''chefName'' = Some chefName
              \<and> field (body req) ''price'' = Some price
              \<and> orders_post req now newId s =
                  (Json 200 [(''success'', JBool True), (''insertedId'', JStr newId)],
                   s\<lparr>orders := insertOne newId
                      [(''mealId'', mealId),
                        (''mealName'', mealName),
                        (''chefId'', chefId),
                        (''chefName'', chefName),
                        (''price'', price),
                        (''userEmail'', bson (field user ''email'')),
                        (''orderStatus'', JStr ''pending''),
                        (''paymentStatus'', paymentStatus),
                        (''orderTime'', JStr now)]
                      (orders s)\<rparr>)))
       \<and> (\<not> (truthy (field (body req) ''mealId'')
          \<and> truthy (js_or (field (body req) ''mealName'') (field (body req) ''foodName''))
          \<and> truthy (field (body req) ''chefId'') \<and> truthy (field (body req) ''chefName'')
          \<and> truthy (field (body req) ''price'')) \<longrightarrow>
            orders_post req now newId s =
              (Json 400 [(''message'', JStr ''Missing required fields'')], s))"
proof -
  have b: "\<exists>v. x = Some v \<and> bson x = v" if "truthy x" for x
    using that by (cases x) simp_all
  show ?thesis
  proof (intro conjI impI)
    assume t: "truthy (field (body req) ''mealId'')
          \<and> truthy (js_or (field (body req) ''mealName'') (field (body req) ''foodName''))
          \<and> truthy (field (body req) ''chefId'') \<and> truthy (field (body req) ''chefName'')
          \<and> truthy (field (body req) ''price'')"
    from t b [of "field (body req) ''mealId''"] obtain mealId where
      m: "field (body req) ''mealId'' = Some mealId" "bson (field (body req) ''mealId'') = mealId"
      by blast
    from t b [of "js_or (field (body req) ''mealName'') (field (body req) ''foodName'')"]
    obtain mealName where
      n: "js_or (field (body req) ''mealName'') (field (body req) ''foodName'') = Some mealName"
         "bson (js_or (field (body req) ''mealName'') (field (body req) ''foodName'')) = mealName"
      by blast
    from t b [of "field (body req) ''chefId''"] obtain chefId where
      c: "field (body req) ''chefId'' = Some chefId" "bson (field (body req) ''chefId'') = chefId"
      by blast
    from t b [of "field (body req) ''chefName''"] obtain chefName where
      cn: "field (body req) ''chefName'' = Some chefName"
          "bson (field (body req) ''chefName'') = chefName"
      by blast
    from t b [of "field (body req) ''price''"] obtain price where
      pr: "field (body req) ''price'' = Some price" "bson (field (body req) ''price'') = price"
      by blast
    have "orders_post req now newId s =
            (Json 200 [(''success'', JBool True), (''insertedId'', JStr newId)],
             s\<lparr>orders := insertOne newId
                [(''mealId'', mealId),
                  (''mealName'', mealName),
                  (''chefId'', chefId),
                  (''chefName'', chefName),
                  (''price'', price),
                  (''userEmail'', bson (field user ''email'')),
                  (''orderStatus'', JStr ''pending''),
                  (''paymentStatus'', JStr ''Pending''),
                  (''orderTime'', JStr now)]
                (orders s)\<rparr>)"
      using assms t m(2) n(2) c(2) cn(2) pr(2)
      by (simp add: orders_post_def verifyToken_def verifyRole_def Let_def)
    with m(1) n(1) c(1) cn(1) pr(1)
    show "\<exists>mealId mealName chefId chefName price paymentStatus.
                field (body req) ''mealId'' = Some mealId
              \<and> js_or (field (body req) ''mealName'') (field (body req) ''foodName'')
                  = Some mealName
              \<and> field (body req) ''chefId'' = Some chefId
              \<and> field (body req) ''chefName'' = Some chefName
              \<and> field (body req) ''price'' = Some price
              \<and> orders_post req now newId s =
                  (Json 200 [(''success'', JBool True), (''insertedId'', JStr newId)],
                   s\<lparr>orders := insertOne newId
                      [(''mealId'', mealId),
                        (''mealName'', mealName),
                        (''chefId'', chefId),
                        (''chefName'', chefName),
                        (''price'', price),
                        (''userEmail'', bson (field user ''email'')),
                        (''orderStatus'', JStr ''pending''),
                        (''paymentStatus'', paymentStatus),
                        (''orderTime'', JStr now)]
                      (orders s)\<rparr>)"
      by blast
  next
    assume "\<not> (truthy (field (body req) ''mealId'')
          \<and> truthy (js_or (field (body req) ''mealName'') (field (body req) ''foodName''))
          \<and> truthy (field (body req) ''chefId'') \<and> truthy (field (body req) ''chefName'')
          \<and> truthy (field (body req) ''price''))"
    with assms show "orders_post req now newId s =
              (Json 400 [(''message'', JStr ''Missing required fields'')], s)"
      by (auto simp add: orders_post_def verifyToken_def verifyRole_def Let_def)
  qed
qed

text \<open>
  The hypotheses of C8 hold on an example, for a price of 20 and for a price of 0.
\<close>

theorem orders_post_checks_presence_only_witness:
  "cred (ex_customer_req (ex_order_body 20)) = Token ex_customer_token
   \<and> field ex_customer_token ''role'' = Some (JStr ''user'')
   \<and> truthy (field (body (ex_customer_req (ex_order_body 20))) ''price'')
   \<and> orders_post (ex_customer_req (ex_order_body 20)) ''2024-01-01T10:00:00.000Z''
        ex_order_id (ex_store [] [])
       = (Json 200 [(''success'', JBool True), (''insertedId'', JStr ex_order_id)],
          ex_store [ex_order ''pending''] [])
   \<and> cred (ex_customer_req (ex_order_body 0)) = Token ex_customer_token
   \<and> \<not> truthy (field (body (ex_customer_req (ex_order_body 0))) ''price'')
   \<and> orders_post (ex_customer_req (ex_order_body 0)) ''2024-01-01T10:00:00.000Z''
        ex_order_id (ex_store [] [])
       = (Json 400 [(''message'', JStr ''Missing required fields'')], ex_store [] [])"
proof -
  have h1: "cred (ex_customer_req (ex_order_body 20)) = Token ex_customer_token"
    and h1': "cred (ex_customer_req (ex_order_body 0)) = Token ex_customer_token"
    and h2: "field ex_customer_token ''role'' = Some (JStr ''user'')"
    and t: "truthy (field (body (ex_customer_req (ex_order_body 20))) ''price'')"
    and f: "\<not> truthy (field (body (ex_customer_req (ex_order_body 0))) ''price'')"
    by (simp_all add: ex_defs eval_defs)
  have all: "truthy (field (body (ex_customer_req (ex_order_body 20))) ''mealId'')
      \<and> truthy (js_or (field (body (ex_customer_req (ex_order_body 20))) ''mealName'')
                  (field (body (ex_customer_req (ex_order_body 20))) ''foodName''))
      \<and> truthy (field (body (ex_customer_req (ex_order_body 20))) ''chefId'')
      \<and> truthy (field (body (ex_customer_req (ex_order_body 20))) ''chefName'')
      \<and> truthy (field (body (ex_customer_req (ex_order_body 20))) ''price'')"
    by (simp add: ex_defs eval_defs)
  from orders_post_checks_presence_only [OF h1 h2,
         of "''2024-01-01T10:00:00.000Z''" ex_order_id "ex_store [] []"] all
  have "fst (orders_post (ex_customer_req (ex_order_body 20)) ''2024-01-01T10:00:00.000Z''
        ex_order_id (ex_store [] []))
       = Json 200 [(''success'', JBool True), (''insertedId'', JStr ex_order_id)]"
    by auto
  moreover have "snd (orders_post (ex_customer_req (ex_order_body 20)) ''2024-01-01T10:00:00.000Z''
        ex_order_id (ex_store [] [])) = ex_store [ex_order ''pending''] []"
    by (simp add: ex_defs eval_defs)
  ultimately have a: "orders_post (ex_customer_req (ex_order_body 20)) ''2024-01-01T10:00:00.000Z''
        ex_order_id (ex_store [] [])
       = (Json 200 [(''success'', JBool True), (''insertedId'', JStr ex_order_id)],
          ex_store [ex_order ''pending''] [])"
    by (simp add: prod_eq_iff)
  from orders_post_checks_presence_only [OF h1' h2,
         of "''2024-01-01T10:00:00.000Z''" ex_order_id "ex_store [] []"] f
  have b: "orders_post (ex_customer_req (ex_order_body 0)) ''2024-01-01T10:00:00.000Z''
        ex_order_id (ex_store [] [])
       = (Json 400 [(''message'', JStr ''Missing required fields'')], ex_store [] [])"
    by blast
  from h1 h1' h2 t f a b show ?thesis by blast
qed

text \<open>
  C8 as stated fails: an order with price \<open>-5\<close> is stored, and its \<open>paymentStatus\<close> is
  the string \<^verbatim>\<open>Pending\<close>.
\<close>

theorem orders_post_negative_price_counterexample:
  "orders_post (ex_customer_req (ex_order_body (- 5))) ''2024-01-01T10:00:00.000Z''
     ''64b7f0c2a1d3e4f5a6b7c8d9'' (ex_store [] [])
   = (Json 200 [(''success'', JBool True), (''insertedId'', JStr ''64b7f0c2a1d3e4f5a6b7c8d9'')],
      ex_store
        ([(''_id'', JOid ''64b7f0c2a1d3e4f5a6b7c8d9''), (''mealId'', JStr ''m1''),
          (''mealName'', JStr ''Biryani''), (''chefId'', JStr ''chef-1234''),
          (''chefName'', JStr ''Chef One''), (''price'', JNum (- 5)),
          (''userEmail'', JStr ''u@x.com''), (''orderStatus'', JStr ''pending''),
          (''paymentStatus'', JStr ''Pending''),
          (''orderTime'', JStr ''2024-01-01T10:00:00.000Z'')] # []) [])"
  by (simp add: ex_defs eval_defs)

text \<open>
  C9, as the code has it. \<^verbatim>\<open>POST /payments/create-payment\<close> does not look at the amount.
  For every authenticated request it asks the gateway for a session. If the gateway call
  fails the answer is 500 and no Payment is stored; if it returns a session, a Payment with
  \<open>status\<close> pending, the returned session id and the requested amount is stored and
  the session's id and url are returned.
\<close>

theorem payments_create_never_validates_amount:
  assumes "cred req = Token user"
  shows "payments_create req (Inl err) now newId s =
           (Json 500 [(''message'', JStr ''Payment creation failed'')],
            s\<lparr>checkout_requests := checkout_requests s @
                 [\<lparr>cp_currency = js_or (field (body req) ''currency'') (Some (JStr ''usd'')),
                   cp_amount = field (body req) ''amount'',
                   cp_orderId = field (body req) ''orderId''\<rparr>]\<rparr>)
       \<and> (\<exists>p. payments_create req (Inr session) now newId s =
           (Json 200 [(''success'', JBool True), (''id'', JStr (sid session)),
                      (''url'', JStr (url session))],
            s\<lparr>checkout_requests := checkout_requests s @
                 [\<lparr>cp_currency = js_or (field (body req) ''currency'') (Some (JStr ''usd'')),
                   cp_amount = field (body req) ''amount'',
                   cp_orderId = field (body req) ''orderId''\<rparr>],
              payments := payments s @ [p]\<rparr>)
           \<and> field p ''status'' = Some (JStr ''pending'')
           \<and> field p ''sessionId'' = Some (JStr (sid session))
           \<and> field p ''amount'' = Some (bson (field (body req) ''amount''))
           \<and> field p ''orderId'' = Some (bson (field (body req) ''orderId'')))"
  using assms
  by (auto simp add: payments_create_def verifyToken_def Let_def insertOne_def field_def)

text \<open>
  The hypothesis of C9 holds on an example.
\<close>

theorem payments_create_never_validates_amount_witness:
  "cred (ex_customer_req (ex_payment_body 20)) = Token ex_customer_token
   \<and> fst (payments_create (ex_customer_req (ex_payment_body 20)) (Inr ex_session)
          ''2024-01-01T10:01:00.000Z'' ''64b7f0c2a1d3e4f5a6b7c8e0'' (ex_store [] []))
     = Json 200 [(''success'', JBool True), (''id'', JStr (sid ex_session)),
                 (''url'', JStr (url ex_session))]
   \<and> fst (payments_create (ex_customer_req (ex_payment_body 20)) (Inl ''timeout'')
          ''2024-01-01T10:01:00.000Z'' ''64b7f0c2a1d3e4f5a6b7c8e0'' (ex_store [] []))
     = Json 500 [(''message'', JStr ''Payment creation failed'')]"
proof -
  have h: "cred (ex_customer_req (ex_payment_body 20)) = Token ex_customer_token"
    by (simp add: ex_defs)
  from payments_create_never_validates_amount [OF h, of "''timeout''"
         "''2024-01-01T10:01:00.000Z''" "''64b7f0c2a1d3e4f5a6b7c8e0''" "ex_store [] []" ex_session]
    h
  show ?thesis by auto
qed

text \<open>
  C9 as stated fails: with an amount of \<open>-5\<close> and a gateway that returns a session a
  pending Payment of \<open>-5\<close> is stored; with an amount of 0 and a gateway that refuses,
  the gateway has still been asked and the answer is 500.
\<close>

theorem payments_create_nonpositive_amount_counterexample:
  "payments_create (ex_customer_req (ex_payment_body (- 5))) (Inr ex_session)
     ''2024-01-01T10:01:00.000Z'' ''64b7f0c2a1d3e4f5a6b7c8e0'' (ex_store [] [])
   = (Json 200 [(''success'', JBool True), (''id'', JStr ''cs_test_2''),
                (''url'', JStr ''https://checkout.stripe.com/c/pay/cs_test_2'')],
      \<lparr>users = [ex_chef_user], orders = [],
       payments =
         [(''_id'', JOid ''64b7f0c2a1d3e4f5a6b7c8e0''), (''orderId'', JStr ex_order_id),
          (''email'', JStr ''u@x.com''), (''amount'', JNum (- 5)), (''currency'', JStr ''usd''),
          (''status'', JStr ''pending''), (''sessionId'', JStr ''cs_test_2''),
          (''createdAt'', JStr ''2024-01-01T10:01:00.000Z'')] # [],
       checkout_requests =
         [\<lparr>cp_currency = Some (JStr ''usd''), cp_amount = Some (JNum (- 5)),
           cp_orderId = Some (JStr ex_order_id)\<rparr>]\<rparr>)
   \<and> payments_create (ex_customer_req (ex_payment_body 0)) (Inl ''amount too small'')
          ''2024-01-01T10:01:00.000Z'' ''64b7f0c2a1d3e4f5a6b7c8e0'' (ex_store [] [])
     = (Json 500 [(''message'', JStr ''Payment creation failed'')],
        \<lparr>users = [ex_chef_user], orders = [], payments = [],
         checkout_requests =
           [\<lparr>cp_currency = Some (JStr ''usd''), cp_amount = Some (JNum 0),
             cp_orderId = Some (JStr ex_order_id)\<rparr>]\<rparr>)"
  by (simp add: ex_defs eval_defs)

section \<open>Tokens issued at login\<close>

text \<open>
  C10, as the code has it. A token issued by \<^verbatim>\<open>POST /auth/login\<close> carries \<open>email\<close>,
  \<open>role\<close> and \<open>id\<close> (with the issue and expiry times) and no \<open>chefId\<close>, so accept
  and reject filter on a null \<open>chefId\<close>. For a requester with such a token they leave
  every order as it is whose \<open>chefId\<close> is present, not null and not an array that holds
  null, whatever the order's state. A requester whose role is not chef is answered 403, and
  a chef who sends an ill-formed id 500, both without a write. A chef who addresses, by a
  well-formed id, orders whose \<open>chefId\<close> is present, not null and not an array that holds
  null gets \<^verbatim>\<open>modifiedCount\<close> 0, and the whole state is unchanged.
\<close>

theorem login_token_selects_only_null_chefId:
  assumes "auth_login bdy iat s0 = (resp, Some tok)" and "cred req = Token tok"
  shows "field tok ''chefId'' = None
       \<and> set (map fst tok) \<subseteq> {''email'', ''role'', ''id'', ''iat'', ''exp''}
       \<and> (i < length (orders s) \<and> field (orders s ! i) ''chefId'' = Some c \<and> \<not> null_like c
            \<longrightarrow>
            orders (snd (orders_accept req now s)) ! i = orders s ! i
          \<and> orders (snd (orders_reject req now s)) ! i = orders s ! i)
       \<and> (field tok ''role'' \<noteq> Some (JStr ''chef'') \<longrightarrow>
            orders_accept req now s
              = (Json 403 [(''message'', JStr ''Forbidden: Insufficient role'')], s)
          \<and> orders_reject req now s
              = (Json 403 [(''message'', JStr ''Forbidden: Insufficient role'')], s))
       \<and> (field tok ''role'' = Some (JStr ''chef'') \<and> ObjectId (param_id req) = None \<longrightarrow>
            orders_accept req now s
              = (Json 500 [(''message'', JStr ''Failed to accept order'')], s)
          \<and> orders_reject req now s
              = (Json 500 [(''message'', JStr ''Failed to reject order'')], s))
       \<and> (field tok ''role'' = Some (JStr ''chef'') \<and> ObjectId (param_id req) = Some oid
          \<and> (\<forall>d\<in>set (orders s). matches [(''_id'', oid)] d \<longrightarrow>
                (\<exists>c. field d ''chefId'' = Some c \<and> \<not> null_like c)) \<longrightarrow>
            orders_accept req now s = (modified_response 0, s)
          \<and> orders_reject req now s = (modified_response 0, s))"
proof -
  note nochef = login_token_no_chefId [OF assms(1)]
  have keys: "set (map fst tok) \<subseteq> {''email'', ''role'', ''id'', ''iat'', ''exp''}"
    by (rule login_token_keys [OF assms(1)])
  have forbidden: "orders_accept req now s
              = (Json 403 [(''message'', JStr ''Forbidden: Insufficient role'')], s)
          \<and> orders_reject req now s
              = (Json 403 [(''message'', JStr ''Forbidden: Insufficient role'')], s)"
    if "field tok ''role'' \<noteq> Some (JStr ''chef'')"
    using that assms(2)
    by (simp add: orders_accept_def orders_reject_def verifyToken_def verifyRole_def)
  have illformed: "orders_accept req now s
              = (Json 500 [(''message'', JStr ''Failed to accept order'')], s)
          \<and> orders_reject req now s
              = (Json 500 [(''message'', JStr ''Failed to reject order'')], s)"
    if "field tok ''role'' = Some (JStr ''chef'') \<and> ObjectId (param_id req) = None"
    using that assms(2)
    by (simp add: orders_accept_def orders_reject_def verifyToken_def verifyRole_def)
  have kept: "orders (snd (orders_accept req now s)) ! i = orders s ! i
          \<and> orders (snd (orders_reject req now s)) ! i = orders s ! i"
    if h: "i < length (orders s) \<and> field (orders s ! i) ''chefId'' = Some c \<and> \<not> null_like c"
  proof (cases "field tok ''role'' = Some (JStr ''chef'')")
    case False
    with forbidden show ?thesis by simp
  next
    case role: True
    show ?thesis
    proof (cases "ObjectId (param_id req)")
      case None
      with role illformed show ?thesis by simp
    next
      case (Some q)
      have "\<not> first_match [(''_id'', q), (''chefId'', JNull)] (orders s) i"
        using h null_filter_skips [of "orders s ! i" "''chefId''" c "''_id''" q]
        by (simp add: first_match_def)
      with h show ?thesis
        by (simp add: orders_accept_eq [OF assms(2) role Some]
              orders_reject_eq [OF assms(2) role Some] nochef updateOne_nth)
    qed
  qed
  have unselected: "orders_accept req now s = (modified_response 0, s)
          \<and> orders_reject req now s = (modified_response 0, s)"
    if h: "field tok ''role'' = Some (JStr ''chef'') \<and> ObjectId (param_id req) = Some oid
          \<and> (\<forall>d\<in>set (orders s). matches [(''_id'', oid)] d \<longrightarrow>
                (\<exists>c. field d ''chefId'' = Some c \<and> \<not> null_like c))"
  proof -
    have "\<not> matches [(''_id'', oid), (''chefId'', JNull)] d" if d: "d \<in> set (orders s)" for d
    proof
      assume m: "matches [(''_id'', oid), (''chefId'', JNull)] d"
      then have "matches [(''_id'', oid)] d" by (simp add: matches_def)
      with h d obtain c where "field d ''chefId'' = Some c" and "\<not> null_like c" by blast
      with m show False
        by (simp add: matches_def value_matches_def null_like_def)
    qed
    then have none: "list_all (\<lambda>d. \<not> matches [(''_id'', oid), (''chefId'', JNull)] d) (orders s)"
      by (simp add: list_all_iff)
    from h have role: "field tok ''role'' = Some (JStr ''chef'')"
      and oid: "ObjectId (param_id req) = Some oid" by simp_all
    from none show ?thesis
      by (simp add: orders_accept_eq [OF assms(2) role oid]
            orders_reject_eq [OF assms(2) role oid] nochef updateOne_no_match)
  qed
  from nochef keys kept forbidden illformed unselected show ?thesis by blast
qed

text \<open>
  The hypotheses of C10 hold on an example: the chef logs in and tries to accept and to
  reject a pending order placed with that chef's \<open>chefId\<close>, once by its id and once by
  an id that is not well formed; and the customer, logged in, tries the same.
\<close>

theorem login_token_selects_only_null_chefId_witness:
  "auth_login [(''email'', JStr ''chef@x.com'')] 1704099600 (ex_store [] [])
     = (LoginOk [(''name'', JStr ''Chef One''), (''email'', JStr ''chef@x.com''),
                 (''role'', JStr ''chef''), (''status'', JStr ''active''),
                 (''avatar'', JNull), (''address'', JNull)],
        Some ex_chef_token)
   \<and> cred ex_chef_req = Token ex_chef_token
   \<and> 0 < length (orders (ex_store [ex_order ''pending''] []))
   \<and> field (orders (ex_store [ex_order ''pending''] []) ! 0) ''chefId'' = Some (JStr ''chef-1234'')
   \<and> \<not> null_like (JStr ''chef-1234'')
   \<and> field ex_chef_token ''role'' = Some (JStr ''chef'')
   \<and> ObjectId (param_id ex_chef_req) = Some (JOid ex_order_id)
   \<and> orders (ex_store [ex_order ''pending''] []) = [ex_order ''pending'']
   \<and> orders (snd (orders_accept ex_chef_req ''2024-01-01T10:05:00.000Z''
                     (ex_store [ex_order ''pending''] []))) ! 0
       = orders (ex_store [ex_order ''pending''] []) ! 0
   \<and> orders_accept ex_chef_req ''2024-01-01T10:05:00.000Z'' (ex_store [ex_order ''pending''] [])
       = (modified_response 0, ex_store [ex_order ''pending''] [])
   \<and> orders_reject ex_chef_req ''2024-01-01T10:05:00.000Z'' (ex_store [ex_order ''pending''] [])
       = (modified_response 0, ex_store [ex_order ''pending''] [])
   \<and> cred (ex_chef_req\<lparr>param_id := ''order-1''\<rparr>) = Token ex_chef_token
   \<and> ObjectId (param_id (ex_chef_req\<lparr>param_id := ''order-1''\<rparr>)) = None
   \<and> orders_accept (ex_chef_req\<lparr>param_id := ''order-1''\<rparr>) ''2024-01-01T10:05:00.000Z''
        (ex_store [ex_order ''pending''] [])
       = (Json 500 [(''message'', JStr ''Failed to accept order'')],
          ex_store [ex_order ''pending''] [])
   \<and> auth_login [(''email'', JStr ''u@x.com'')] 1704099600
        ((ex_store [] [])\<lparr>users := [ex_chef_user, ex_customer_user]\<rparr>)
     = (LoginOk [(''name'', JStr ''User One''), (''email'', JStr ''u@x.com''),
                 (''role'', JStr ''user''), (''status'', JStr ''active''),
                 (''avatar'', JNull), (''address'', JNull)],
        Some ex_customer_token)
   \<and> cred (ex_customer_req []) = Token ex_customer_token
   \<and> field ex_customer_token ''role'' \<noteq> Some (JStr ''chef'')
   \<and> orders_accept (ex_customer_req []) ''2024-01-01T10:05:00.000Z''
        (ex_store [ex_order ''pending''] [])
       = (Json 403 [(''message'', JStr ''Forbidden: Insufficient role'')],
          ex_store [ex_order ''pending''] [])"
proof -
  have login: "auth_login [(''email'', JStr ''chef@x.com'')] 1704099600 (ex_store [] [])
     = (LoginOk [(''name'', JStr ''Chef One''), (''email'', JStr ''chef@x.com''),
                 (''role'', JStr ''chef''), (''status'', JStr ''active''),
                 (''avatar'', JNull), (''address'', JNull)],
        Some ex_chef_token)"
    by (simp add: ex_defs eval_defs)
  have login': "auth_login [(''email'', JStr ''u@x.com'')] 1704099600
        ((ex_store [] [])\<lparr>users := [ex_chef_user, ex_customer_user]\<rparr>)
     = (LoginOk [(''name'', JStr ''User One''), (''email'', JStr ''u@x.com''),
                 (''role'', JStr ''user''), (''status'', JStr ''active''),
                 (''avatar'', JNull), (''address'', JNull)],
        Some ex_customer_token)"
    by (simp add: ex_defs eval_defs)
  have c: "cred ex_chef_req = Token ex_chef_token"
    and c2: "cred (ex_chef_req\<lparr>param_id := ''order-1''\<rparr>) = Token ex_chef_token"
    and c3: "cred (ex_customer_req []) = Token ex_customer_token"
    by (simp_all add: ex_defs)
  have i: "0 < length (orders (ex_store [ex_order ''pending''] []))"
    and ch: "field (orders (ex_store [ex_order ''pending''] []) ! 0) ''chefId''
               = Some (JStr ''chef-1234'')"
    and nn: "\<not> null_like (JStr ''chef-1234'')"
    and role: "field ex_chef_token ''role'' = Some (JStr ''chef'')"
    and role': "field ex_customer_token ''role'' \<noteq> Some (JStr ''chef'')"
    and oid: "ObjectId (param_id ex_chef_req) = Some (JOid ex_order_id)"
    and bad: "ObjectId (param_id (ex_chef_req\<lparr>param_id := ''order-1''\<rparr>)) = None"
    and os: "orders (ex_store [ex_order ''pending''] []) = [ex_order ''pending'']"
    and all: "\<forall>d\<in>set (orders (ex_store [ex_order ''pending''] [])).
         matches [(''_id'', JOid ex_order_id)] d \<longrightarrow>
         (\<exists>c. field d ''chefId'' = Some c \<and> \<not> null_like c)"
    by (simp_all add: ex_defs eval_defs)
  from login_token_selects_only_null_chefId [OF login c,
      of 0 "ex_store [ex_order ''pending''] []" "JStr ''chef-1234''"
         "''2024-01-01T10:05:00.000Z''" "JOid ex_order_id"]
    i ch nn role oid all
  have a: "orders (snd (orders_accept ex_chef_req ''2024-01-01T10:05:00.000Z''
                     (ex_store [ex_order ''pending''] []))) ! 0
       = orders (ex_store [ex_order ''pending''] []) ! 0
     \<and> orders_accept ex_chef_req ''2024-01-01T10:05:00.000Z'' (ex_store [ex_order ''pending''] [])
       = (modified_response 0, ex_store [ex_order ''pending''] [])
     \<and> orders_reject ex_chef_req ''2024-01-01T10:05:00.000Z'' (ex_store [ex_order ''pending''] [])
       = (modified_response 0, ex_store [ex_order ''pending''] [])"
    by blast
  from login_token_selects_only_null_chefId [OF login c2,
      of 0 "ex_store [ex_order ''pending''] []" "JStr ''chef-1234''"
         "''2024-01-01T10:05:00.000Z''" "JOid ex_order_id"]
    role bad
  have b: "orders_accept (ex_chef_req\<lparr>param_id := ''order-1''\<rparr>) ''2024-01-01T10:05:00.000Z''
        (ex_store [ex_order ''pending''] [])
       = (Json 500 [(''message'', JStr ''Failed to accept order'')],
          ex_store [ex_order ''pending''] [])"
    by blast
  from login_token_selects_only_null_chefId [OF login' c3,
      of 0 "ex_store [ex_order ''pending''] []" "JStr ''chef-1234''"
         "''2024-01-01T10:05:00.000Z''" "JOid ex_order_id"]
    role'
  have d: "orders_accept (ex_customer_req []) ''2024-01-01T10:05:00.000Z''
        (ex_store [ex_order ''pending''] [])
       = (Json 403 [(''message'', JStr ''Forbidden: Insufficient role'')],
          ex_store [ex_order ''pending''] [])"
    by blast
  from login login' c c2 c3 i ch nn role role' oid bad os a b d show ?thesis by blast
qed

text \<open>
  C10 as stated fails. A customer places an order whose \<^verbatim>\<open>chefId\<close> is the array
  \<^verbatim>\<open>[null]\<close>; the field is present and not null. A chef, logged in, accepts it: the null
  condition of the filter selects the array that holds null, the order becomes accepted
  and \<^verbatim>\<open>modifiedCount\<close> is 1. And a customer, logged in, who tries to accept an order
  is not told \<^verbatim>\<open>modifiedCount\<close> 0 but 403.
\<close>

theorem login_token_accepts_array_chef_order_counterexample:
  "orders_post (ex_customer_req ex_order_body_array_chef) ''2024-01-01T10:00:00.000Z''
     ex_order_id (ex_store [] [])
     = (Json 200 [(''success'', JBool True), (''insertedId'', JStr ex_order_id)],
        ex_store [ex_order_array_chef ''pending''] [])
   \<and> field (ex_order_array_chef ''pending'') ''chefId'' = Some (JArr [JNull])
   \<and> auth_login [(''email'', JStr ''chef@x.com'')] 1704099600
        (ex_store [ex_order_array_chef ''pending''] [])
     = (LoginOk [(''name'', JStr ''Chef One''), (''email'', JStr ''chef@x.com''),
                 (''role'', JStr ''chef''), (''status'', JStr ''active''),
                 (''avatar'', JNull), (''address'', JNull)],
        Some ex_chef_token)
   \<and> orders_accept ex_chef_req ''2024-01-01T10:05:00.000Z''
        (ex_store [ex_order_array_chef ''pending''] [])
     = (modified_response 1,
        ex_store [ex_order_array_chef ''accepted'' @
                    [(''acceptedAt'', JStr ''2024-01-01T10:05:00.000Z'')]] [])
   \<and> auth_login [(''email'', JStr ''u@x.com'')] 1704099600
        ((ex_store [ex_order ''pending''] [])\<lparr>users := [ex_chef_user, ex_customer_user]\<rparr>)
     = (LoginOk [(''name'', JStr ''User One''), (''email'', JStr ''u@x.com''),
                 (''role'', JStr ''user''), (''status'', JStr ''active''),
                 (''avatar'', JNull), (''address'', JNull)],
        Some ex_customer_token)
   \<and> orders_accept (ex_customer_req []) ''2024-01-01T10:05:00.000Z''
        (ex_store [ex_order ''pending''] [])
     = (Json 403 [(''message'', JStr ''Forbidden: Insufficient role'')],
        ex_store [ex_order ''pending''] [])"
  by (simp add: ex_defs eval_defs)

end
